theory Spec2Isabelle
  imports Main "HOL-Library.Word"
begin

unbundle bit_operations_syntax

section \<open>The inbound message\<close>

text \<open>
  This theory models the inbound-message callback \<open>new_xdrip_data_callback\<close> of the
  xDrip watchface, in two revisions of the source: \<open>main.c\<close> (counts and offsets of
  16 bits, up to 300 graph points) and the earlier revision with counts and offsets of
  8 bits and up to 60 points, whose definitions carry the prefix \<open>compact_\<close>.

  The Pebble SDK hands the callback a dictionary of tuples. A tuple carries its
  \<open>length\<close> field and a \<open>value\<close> union; the code reads the union through the member it
  expects for the key (\<open>value->uint32\<close>, \<open>value->cstring\<close>, \<open>value->data\<close>, ...) and never
  looks at the tuple's type. The union is modelled by one field for each member the code
  reads, so nothing is assumed about how the members overlap. \<open>cstring\<close> holds the bytes
  at the string's address, \<open>data\<close> the bytes of a byte-array payload, of which the
  tuple owns the first \<open>t_length\<close>. The length is a \<open>uint16_t\<close> that the code only
  compares, after promotion to \<open>int\<close>; it is a natural number here.
\<close>

record tuple_value =
  uint8 :: "8 word"
  uint16 :: "16 word"
  uint32 :: "32 word"
  cstring :: string
  data :: "8 word list"

record tuple =
  t_length :: nat
  t_value :: tuple_value

type_synonym dictionary = "nat \<rightharpoonup> tuple"

definition dict_find :: "dictionary \<Rightarrow> nat \<Rightarrow> tuple option" where
  "dict_find iter key = iter key"

text \<open>Message keys of \<open>protocol.h\<close>, as included by \<open>main.c\<close>.\<close>

definition KEY_BG_TIMESTAMP :: nat where "KEY_BG_TIMESTAMP = 10"
definition KEY_BG_STRING :: nat where "KEY_BG_STRING = 11"
definition KEY_DELTA_STRING :: nat where "KEY_DELTA_STRING = 12"
definition KEY_ARROW_INDEX :: nat where "KEY_ARROW_INDEX = 13"
definition KEY_GRAPH_DATA :: nat where "KEY_GRAPH_DATA = 14"
definition KEY_GRAPH_HIGH_LINE :: nat where "KEY_GRAPH_HIGH_LINE = 15"
definition KEY_GRAPH_LOW_LINE :: nat where "KEY_GRAPH_LOW_LINE = 16"

text \<open>
  The earlier revision with one-byte counts and offsets (60 points) defines its keys in
  the source file itself; the graph keys differ.
\<close>

definition compact_KEY_GRAPH_DATA :: nat where "compact_KEY_GRAPH_DATA = 20"
definition compact_KEY_GRAPH_HIGH_LINE :: nat where "compact_KEY_GRAPH_HIGH_LINE = 21"
definition compact_KEY_GRAPH_LOW_LINE :: nat where "compact_KEY_GRAPH_LOW_LINE = 22"

section \<open>The watchface state\<close>

text \<open>
  The resource identifiers \<open>RESOURCE_ID_ARROW_*\<close> are generated by the SDK build; they
  stay symbolic. \<open>NO_RESOURCE\<close> is the literal 0 at index 0 of \<open>ARROWS\<close>.
\<close>

datatype resource =
  NO_RESOURCE
  | RESOURCE_ID_ARROW_UP_DOUBLE
  | RESOURCE_ID_ARROW_UP
  | RESOURCE_ID_ARROW_UP_SLANT
  | RESOURCE_ID_ARROW_FLAT
  | RESOURCE_ID_ARROW_DOWN_SLANT
  | RESOURCE_ID_ARROW_DOWN
  | RESOURCE_ID_ARROW_DOWN_DOUBLE

definition ARROWS :: "resource list" where
  "ARROWS = [NO_RESOURCE, RESOURCE_ID_ARROW_UP_DOUBLE, RESOURCE_ID_ARROW_UP,
             RESOURCE_ID_ARROW_UP_SLANT, RESOURCE_ID_ARROW_FLAT,
             RESOURCE_ID_ARROW_DOWN_SLANT, RESOURCE_ID_ARROW_DOWN,
             RESOURCE_ID_ARROW_DOWN_DOUBLE]"

text \<open>
  The file-scope variables of the watchface. The count and the offsets are \<open>uint16_t\<close>
  in \<open>main.c\<close> and \<open>uint8_t\<close> in the 60-point revision, hence the two type parameters.
  A bitmap is identified by the resource it was created from, \<open>None\<close> is the \<open>NULL\<close>
  pointer. \<open>arrow_layer_bitmap\<close> is what \<open>bitmap_layer_set_bitmap\<close> last gave the arrow
  layer; \<open>s_graph_layer\<close> is \<open>None\<close> until the window is loaded and then holds the
  layer's dirty flag. A text layer shows the buffer it was handed, so the buffers stand
  for the text on screen.
\<close>

record ('count, 'offset) watch =
  s_bg_timestamp :: "32 word"
  s_bg_string :: string
  s_delta_string :: string
  s_arrow_index :: "8 word"
  s_time_ago_buffer :: string
  s_arrow_bitmap :: "resource option"
  arrow_layer_bitmap :: "resource option"
  s_graph_layer :: "bool option"
  s_graph_ref_timestamp :: "32 word"
  s_graph_count :: 'count
  s_graph_offsets :: "'offset list"
  s_graph_bg_values :: "16 word list"
  s_graph_high_line :: "16 word"
  s_graph_low_line :: "16 word"

definition MAX_GRAPH_POINTS :: nat where "MAX_GRAPH_POINTS = 300"
definition compact_MAX_GRAPH_POINTS :: nat where "compact_MAX_GRAPH_POINTS = 60"

abbreviation NUL :: char where "NUL \<equiv> CHR 0x00"

text \<open>The initial values of the variables, before the window is loaded.\<close>

definition initial_watch :: "nat \<Rightarrow> ('c::len word, 'o::len word) watch" where
  "initial_watch cap =
     \<lparr> s_bg_timestamp = 0,
       s_bg_string = ''---'' @ [NUL, NUL],
       s_delta_string = replicate 6 NUL,
       s_arrow_index = 0,
       s_time_ago_buffer = replicate 4 NUL,
       s_arrow_bitmap = None,
       arrow_layer_bitmap = None,
       s_graph_layer = None,
       s_graph_ref_timestamp = 0,
       s_graph_count = 0,
       s_graph_offsets = replicate cap 0,
       s_graph_bg_values = replicate cap 0,
       s_graph_high_line = 180,
       s_graph_low_line = 72 \<rparr>"

section \<open>String copy\<close>

text \<open>
  A C string is the run of characters before the first NUL. \<open>strncpy\<close> (C library)
  writes exactly \<open>count\<close> characters to \<open>dest\<close>: the string, cut at \<open>count\<close>, then
  NULs. A destination shorter than \<open>count\<close> comes back longer than it was: the
  overflow is visible in the result.
\<close>

definition c_str :: "string \<Rightarrow> string" where
  "c_str src = takeWhile (\<lambda>c. c \<noteq> NUL) src"

definition strncpy :: "string \<Rightarrow> string \<Rightarrow> nat \<Rightarrow> string" where
  "strncpy dest src count =
     (let s = take count (c_str src)
      in s @ replicate (count - length s) NUL @ drop count dest)"

definition safe_strncpy :: "string \<Rightarrow> string \<Rightarrow> nat \<Rightarrow> string" where
  "safe_strncpy dest src count =
     (if count > 0 then (strncpy dest src count)[count - 1 := NUL] else dest)"

section \<open>Display updates\<close>

text \<open>
  \<open>snprintf\<close> (C library) with a buffer of \<open>n\<close> characters stores at most
  \<open>n - 1\<close> characters of the formatted text and a NUL after them; the rest of the
  buffer keeps its contents. \<open>dec\<close> prints a non-negative \<open>%d\<close>.
\<close>

fun dec :: "nat \<Rightarrow> string" where
  "dec n = (if n < 10 then [char_of (48 + n)] else dec (n div 10) @ [char_of (48 + n mod 10)])"

definition snprintf :: "string \<Rightarrow> nat \<Rightarrow> string \<Rightarrow> string" where
  "snprintf buf n text =
     (if n = 0 then buf
      else let s = take (n - 1) text in s @ [NUL] @ drop (length s + 1) buf)"

text \<open>
  \<open>time(NULL) - s_bg_timestamp\<close> is computed in unsigned 32-bit arithmetic, divided by
  60 and stored in an \<open>int\<close>, which it always fits. \<open>now\<close> is the value of
  \<open>time(NULL)\<close>.
\<close>

definition update_displayed_time_ago :: "32 word \<Rightarrow> ('c, 'o) watch \<Rightarrow> ('c, 'o) watch" where
  "update_displayed_time_ago now s =
     (if s_bg_timestamp s = 0 then s
      else
        let minutes_ago = unat ((now - s_bg_timestamp s) div 60)
        in if minutes_ago < 60
           then s\<lparr>s_time_ago_buffer := snprintf (s_time_ago_buffer s) 4 (dec minutes_ago @ ''m'')\<rparr>
           else s\<lparr>s_time_ago_buffer := snprintf (s_time_ago_buffer s) 4 (dec (minutes_ago div 60) @ ''h'')\<rparr>)"

text \<open>
  \<open>gbitmap_create_with_resource\<close> is taken to succeed. The old bitmap is destroyed
  first; the new one, or \<open>NULL\<close>, goes to the arrow layer.
\<close>

definition update_displayed_xdrip_data :: "('c, 'o) watch \<Rightarrow> ('c, 'o) watch" where
  "update_displayed_xdrip_data s =
     (let s = s\<lparr>s_arrow_bitmap := None\<rparr>
      in if s_arrow_index s > 0 \<and> unat (s_arrow_index s) < length ARROWS
         then let bitmap = Some (ARROWS ! unat (s_arrow_index s))
              in s\<lparr>s_arrow_bitmap := bitmap, arrow_layer_bitmap := bitmap\<rparr>
         else s\<lparr>arrow_layer_bitmap := None\<rparr>)"

section \<open>Array accesses\<close>

text \<open>
  C does not check a subscript, and an access outside an array has no defined result. So
  that memory safety can be stated, the callback returns, next to the new state, the list
  of every subscript the graph block evaluates, in program order, with the index as the C
  \<open>int\<close> it is: a read of the payload \<open>data\<close>, a write or read of \<open>s_graph_offsets\<close>, a
  write or read of \<open>s_graph_bg_values\<close>. An access is in bounds when its index is not
  negative and below the payload's length or the capacity of the buffer. The reads of
  the two buffers only feed log lines, so they leave no other mark on the state.
\<close>

datatype access =
  PayloadRead int
  | OffsetsWrite int
  | OffsetsRead int
  | BgValuesWrite int
  | BgValuesRead int

fun in_bounds :: "nat \<Rightarrow> nat \<Rightarrow> access \<Rightarrow> bool" where
  "in_bounds len cap (PayloadRead i) = (0 \<le> i \<and> i < int len)"
| "in_bounds len cap (OffsetsWrite i) = (0 \<le> i \<and> i < int cap)"
| "in_bounds len cap (OffsetsRead i) = (0 \<le> i \<and> i < int cap)"
| "in_bounds len cap (BgValuesWrite i) = (0 \<le> i \<and> i < int cap)"
| "in_bounds len cap (BgValuesRead i) = (0 \<le> i \<and> i < int cap)"

section \<open>Loops\<close>

text \<open>
  \<open>for (int i = 0; i < n; i++) body\<close>, entered at \<open>i\<close>. Both loops of the graph
  block run to \<open>s_graph_count\<close>, which their bodies do not change.
\<close>

function for_loop :: "nat \<Rightarrow> nat \<Rightarrow> (nat \<Rightarrow> 'a \<Rightarrow> 'a) \<Rightarrow> 'a \<Rightarrow> 'a" where
  "for_loop i n body st = (if i < n then for_loop (Suc i) n body (body i st) else st)"
  by pat_completeness auto
termination
  by (relation "measure (\<lambda>(i, n, body, st). n - i)") auto

declare for_loop.simps [simp del]

section \<open>The message callback of main.c\<close>

type_synonym watch300 = "(16 word, 16 word) watch"

text \<open>Loop bodies: one offset (\<open>uint16\<close>, little-endian), one value (doubled).\<close>

definition parse_offset :: "8 word list \<Rightarrow> nat \<Rightarrow> watch300 \<times> access list \<Rightarrow> watch300 \<times> access list" where
  "parse_offset d i = (\<lambda>(s, tr).
     let offset_idx = 6 + i * 2
     in (s\<lparr>s_graph_offsets := (s_graph_offsets s)
              [i := ucast (d ! offset_idx) OR push_bit 8 (ucast (d ! (offset_idx + 1)))]\<rparr>,
         tr @ [PayloadRead (int offset_idx), PayloadRead (int offset_idx + 1), OffsetsWrite (int i)]))"

definition parse_bg_value :: "8 word list \<Rightarrow> nat \<Rightarrow> watch300 \<times> access list \<Rightarrow> watch300 \<times> access list" where
  "parse_bg_value d i = (\<lambda>(s, tr).
     let idx = 6 + unat (s_graph_count s) * 2 + i
     in (s\<lparr>s_graph_bg_values := (s_graph_bg_values s)[i := ucast (d ! idx) * 2]\<rparr>,
         tr @ [PayloadRead (int idx), BgValuesWrite (int i)]))"

text \<open>
  The block under \<open>// Graph data\<close>. The header is parsed straight into the variables,
  before the length is checked against the clamped count; the log lines after the loops
  read the first and the last point. The shifts are computed in \<open>int\<close> and converted to
  the variable's unsigned type, which gives the bits of the expression on words;
  \<open>expected_size\<close> is at most 906 and is a natural number here.
\<close>

definition graph_data :: "tuple option \<Rightarrow> watch300 \<Rightarrow> watch300 \<times> access list" where
  "graph_data graph_tuple s =
     (case graph_tuple of
        None \<Rightarrow> (s, [])
      | Some t \<Rightarrow>
          if t_length t \<ge> 6 then
            let d = data (t_value t);
                s = s\<lparr>s_graph_ref_timestamp :=
                        ucast (d ! 0) OR push_bit 8 (ucast (d ! 1)) OR
                        push_bit 16 (ucast (d ! 2)) OR push_bit 24 (ucast (d ! 3))\<rparr>;
                s = s\<lparr>s_graph_count := ucast (d ! 4) OR push_bit 8 (ucast (d ! 5))\<rparr>;
                tr = map PayloadRead [0, 1, 2, 3, 4, 5];
                s = (if unat (s_graph_count s) > MAX_GRAPH_POINTS
                     then s\<lparr>s_graph_count := of_nat MAX_GRAPH_POINTS\<rparr> else s);
                expected_size = 6 + unat (s_graph_count s) * 3
            in if t_length t \<ge> expected_size then
                 let (s, tr) = for_loop 0 (unat (s_graph_count s)) (parse_offset d) (s, tr);
                     (s, tr) = for_loop 0 (unat (s_graph_count s)) (parse_bg_value d) (s, tr);
                     tr = tr @ [OffsetsRead 0, BgValuesRead 0,
                                OffsetsRead (int (unat (s_graph_count s)) - 1),
                                BgValuesRead (int (unat (s_graph_count s)) - 1)];
                     s = (case s_graph_layer s of None \<Rightarrow> s
                          | Some dirty \<Rightarrow> s\<lparr>s_graph_layer := Some True\<rparr>)
                 in (s, tr)
               else (s, tr)
          else (s, []))"

definition new_xdrip_data_callback :: "32 word \<Rightarrow> dictionary \<Rightarrow> watch300 \<Rightarrow> watch300 \<times> access list" where
  "new_xdrip_data_callback now iter s =
     (case dict_find iter KEY_BG_TIMESTAMP of
        None \<Rightarrow> (s, [])
      | Some timestamp_tuple \<Rightarrow>
          let s = s\<lparr>s_bg_timestamp := uint32 (t_value timestamp_tuple)\<rparr>;
              s = (case dict_find iter KEY_BG_STRING of None \<Rightarrow> s
                   | Some bg_tuple \<Rightarrow>
                       s\<lparr>s_bg_string := safe_strncpy (s_bg_string s) (cstring (t_value bg_tuple)) 5\<rparr>);
              s = (case dict_find iter KEY_ARROW_INDEX of None \<Rightarrow> s
                   | Some arrow_tuple \<Rightarrow> s\<lparr>s_arrow_index := uint8 (t_value arrow_tuple)\<rparr>);
              s = (case dict_find iter KEY_DELTA_STRING of None \<Rightarrow> s
                   | Some delta_tuple \<Rightarrow>
                       s\<lparr>s_delta_string := safe_strncpy (s_delta_string s) (cstring (t_value delta_tuple)) 6\<rparr>);
              (s, tr) = graph_data (dict_find iter KEY_GRAPH_DATA) s;
              s = (case dict_find iter KEY_GRAPH_HIGH_LINE of None \<Rightarrow> s
                   | Some high_line_tuple \<Rightarrow> s\<lparr>s_graph_high_line := uint16 (t_value high_line_tuple)\<rparr>);
              s = (case dict_find iter KEY_GRAPH_LOW_LINE of None \<Rightarrow> s
                   | Some low_line_tuple \<Rightarrow> s\<lparr>s_graph_low_line := uint16 (t_value low_line_tuple)\<rparr>);
              s = update_displayed_xdrip_data s;
              s = update_displayed_time_ago now s
          in (s, tr))"

section \<open>The message callback of the 60-point revision\<close>

text \<open>
  The same callback with a 5-byte header, a one-byte count, one-byte offsets and no log
  lines after the loops.
\<close>

type_synonym watch60 = "(8 word, 8 word) watch"

definition compact_parse_offset :: "8 word list \<Rightarrow> nat \<Rightarrow> watch60 \<times> access list \<Rightarrow> watch60 \<times> access list" where
  "compact_parse_offset d i = (\<lambda>(s, tr).
     (s\<lparr>s_graph_offsets := (s_graph_offsets s)[i := d ! (5 + i)]\<rparr>,
      tr @ [PayloadRead (int (5 + i)), OffsetsWrite (int i)]))"

definition compact_parse_bg_value :: "8 word list \<Rightarrow> nat \<Rightarrow> watch60 \<times> access list \<Rightarrow> watch60 \<times> access list" where
  "compact_parse_bg_value d i = (\<lambda>(s, tr).
     let idx = 5 + unat (s_graph_count s) + i
     in (s\<lparr>s_graph_bg_values := (s_graph_bg_values s)[i := ucast (d ! idx) * 2]\<rparr>,
         tr @ [PayloadRead (int idx), BgValuesWrite (int i)]))"

definition compact_graph_data :: "tuple option \<Rightarrow> watch60 \<Rightarrow> watch60 \<times> access list" where
  "compact_graph_data graph_tuple s =
     (case graph_tuple of
        None \<Rightarrow> (s, [])
      | Some t \<Rightarrow>
          if t_length t \<ge> 5 then
            let d = data (t_value t);
                s = s\<lparr>s_graph_ref_timestamp :=
                        ucast (d ! 0) OR push_bit 8 (ucast (d ! 1)) OR
                        push_bit 16 (ucast (d ! 2)) OR push_bit 24 (ucast (d ! 3))\<rparr>;
                s = s\<lparr>s_graph_count := d ! 4\<rparr>;
                tr = map PayloadRead [0, 1, 2, 3, 4];
                s = (if unat (s_graph_count s) > compact_MAX_GRAPH_POINTS
                     then s\<lparr>s_graph_count := of_nat compact_MAX_GRAPH_POINTS\<rparr> else s)
            in if t_length t \<ge> 5 + unat (s_graph_count s) * 2 then
                 let (s, tr) = for_loop 0 (unat (s_graph_count s)) (compact_parse_offset d) (s, tr);
                     (s, tr) = for_loop 0 (unat (s_graph_count s)) (compact_parse_bg_value d) (s, tr);
                     s = (case s_graph_layer s of None \<Rightarrow> s
                          | Some dirty \<Rightarrow> s\<lparr>s_graph_layer := Some True\<rparr>)
                 in (s, tr)
               else (s, tr)
          else (s, []))"

definition compact_new_xdrip_data_callback :: "32 word \<Rightarrow> dictionary \<Rightarrow> watch60 \<Rightarrow> watch60 \<times> access list" where
  "compact_new_xdrip_data_callback now iter s =
     (case dict_find iter KEY_BG_TIMESTAMP of
        None \<Rightarrow> (s, [])
      | Some timestamp_tuple \<Rightarrow>
          let s = s\<lparr>s_bg_timestamp := uint32 (t_value timestamp_tuple)\<rparr>;
              s = (case dict_find iter KEY_BG_STRING of None \<Rightarrow> s
                   | Some bg_tuple \<Rightarrow>
                       s\<lparr>s_bg_string := safe_strncpy (s_bg_string s) (cstring (t_value bg_tuple)) 5\<rparr>);
              s = (case dict_find iter KEY_ARROW_INDEX of None \<Rightarrow> s
                   | Some arrow_tuple \<Rightarrow> s\<lparr>s_arrow_index := uint8 (t_value arrow_tuple)\<rparr>);
              s = (case dict_find iter KEY_DELTA_STRING of None \<Rightarrow> s
                   | Some delta_tuple \<Rightarrow>
                       s\<lparr>s_delta_string := safe_strncpy (s_delta_string s) (cstring (t_value delta_tuple)) 6\<rparr>);
              (s, tr) = compact_graph_data (dict_find iter compact_KEY_GRAPH_DATA) s;
              s = (case dict_find iter compact_KEY_GRAPH_HIGH_LINE of None \<Rightarrow> s
                   | Some high_line_tuple \<Rightarrow> s\<lparr>s_graph_high_line := uint16 (t_value high_line_tuple)\<rparr>);
              s = (case dict_find iter compact_KEY_GRAPH_LOW_LINE of None \<Rightarrow> s
                   | Some low_line_tuple \<Rightarrow> s\<lparr>s_graph_low_line := uint16 (t_value low_line_tuple)\<rparr>);
              s = update_displayed_xdrip_data s;
              s = update_displayed_time_ago now s
          in (s, tr))"


section \<open>Closed forms of the header fields and the loops\<close>

text \<open>
  What the header parse and the two loops compute, written without the state: the lemmas
  about the graph block are stated with them.
\<close>

definition offsets_of :: "8 word list \<Rightarrow> nat \<Rightarrow> 16 word list" where
  "offsets_of d n =
     map (\<lambda>i. ucast (d ! (6 + i * 2)) OR push_bit 8 (ucast (d ! (6 + i * 2 + 1)))) [0..<n]"

definition bg_values_of :: "8 word list \<Rightarrow> nat \<Rightarrow> 16 word list" where
  "bg_values_of d n = map (\<lambda>i. ucast (d ! (6 + n * 2 + i)) * 2) [0..<n]"

definition offset_accesses :: "nat \<Rightarrow> access list" where
  "offset_accesses n =
     concat (map (\<lambda>i. [PayloadRead (int (6 + i * 2)), PayloadRead (int (6 + i * 2) + 1),
                          OffsetsWrite (int i)]) [0..<n])"

definition bg_value_accesses :: "nat \<Rightarrow> access list" where
  "bg_value_accesses n =
     concat (map (\<lambda>i. [PayloadRead (int (6 + n * 2 + i)), BgValuesWrite (int i)]) [0..<n])"

definition ref_timestamp_of :: "8 word list \<Rightarrow> 32 word" where
  "ref_timestamp_of d =
     ucast (d ! 0) OR push_bit 8 (ucast (d ! 1)) OR push_bit 16 (ucast (d ! 2)) OR
     push_bit 24 (ucast (d ! 3))"

definition clamped_count :: "8 word list \<Rightarrow> 16 word" where
  "clamped_count d =
     (let c = ucast (d ! 4) OR push_bit 8 (ucast (d ! 5))
      in if unat c > MAX_GRAPH_POINTS then of_nat MAX_GRAPH_POINTS else c)"

definition compact_offsets_of :: "8 word list \<Rightarrow> nat \<Rightarrow> 8 word list" where
  "compact_offsets_of d n = map (\<lambda>i. d ! (5 + i)) [0..<n]"

definition compact_bg_values_of :: "8 word list \<Rightarrow> nat \<Rightarrow> 16 word list" where
  "compact_bg_values_of d n = map (\<lambda>i. ucast (d ! (5 + n + i)) * 2) [0..<n]"

definition compact_offset_accesses :: "nat \<Rightarrow> access list" where
  "compact_offset_accesses n =
     concat (map (\<lambda>i. [PayloadRead (int (5 + i)), OffsetsWrite (int i)]) [0..<n])"

definition compact_bg_value_accesses :: "nat \<Rightarrow> access list" where
  "compact_bg_value_accesses n =
     concat (map (\<lambda>i. [PayloadRead (int (5 + n + i)), BgValuesWrite (int i)]) [0..<n])"

definition compact_clamped_count :: "8 word list \<Rightarrow> 8 word" where
  "compact_clamped_count d =
     (if unat (d ! 4) > compact_MAX_GRAPH_POINTS then of_nat compact_MAX_GRAPH_POINTS else d ! 4)"

section \<open>Concrete messages\<close>

text \<open>
  Tuples as the phone writes them (\<open>dict_write_uint32\<close> and the like,
  \<open>dict_write_cstring\<close>, \<open>dict_write_data\<close>), for concrete messages. An integer is
  stored little-endian, so the narrower members read its low bytes; members that the code
  does not read for the key are left zero or empty.
\<close>

definition uint_tuple :: "nat \<Rightarrow> 32 word \<Rightarrow> tuple" where
  "uint_tuple n v =
     \<lparr>t_length = n,
      t_value = \<lparr>uint8 = ucast v, uint16 = ucast v, uint32 = v, cstring = [], data = []\<rparr>\<rparr>"

definition cstring_tuple :: "string \<Rightarrow> tuple" where
  "cstring_tuple str =
     \<lparr>t_length = length str + 1,
      t_value = \<lparr>uint8 = 0, uint16 = 0, uint32 = 0, cstring = str @ [NUL], data = []\<rparr>\<rparr>"

definition data_tuple :: "8 word list \<Rightarrow> tuple" where
  "data_tuple d =
     \<lparr>t_length = length d,
      t_value = \<lparr>uint8 = 0, uint16 = 0, uint32 = 0, cstring = [], data = d\<rparr>\<rparr>"

definition example_message :: dictionary where
  "example_message =
     [KEY_BG_TIMESTAMP \<mapsto> uint_tuple 4 1000,
      KEY_GRAPH_DATA \<mapsto> data_tuple [0xE8, 3, 0, 0, 2, 0, 0, 0, 5, 0, 50, 60],
      compact_KEY_GRAPH_DATA \<mapsto> data_tuple [0xE8, 3, 0, 0, 2, 0, 5, 50, 60]]"

definition oversized_message :: dictionary where
  "oversized_message =
     [KEY_BG_TIMESTAMP \<mapsto> uint_tuple 4 1000,
      KEY_GRAPH_DATA \<mapsto> data_tuple (replicate 906 0xFF),
      compact_KEY_GRAPH_DATA \<mapsto> data_tuple (replicate 125 0xFF)]"

definition zero_count_message :: dictionary where
  "zero_count_message =
     [KEY_BG_TIMESTAMP \<mapsto> uint_tuple 4 1000,
      KEY_GRAPH_DATA \<mapsto> data_tuple [0, 0, 0, 0, 0, 0]]"

definition truncated_message :: dictionary where
  "truncated_message =
     [KEY_BG_TIMESTAMP \<mapsto> uint_tuple 4 1000,
      KEY_GRAPH_DATA \<mapsto> (data_tuple [0xE8, 3, 0, 0, 2, 0, 0, 0, 5, 0, 50, 60])\<lparr>t_length := 6\<rparr>,
      compact_KEY_GRAPH_DATA \<mapsto> (data_tuple [0xE8, 3, 0, 0, 2, 0, 5, 50, 60])\<lparr>t_length := 5\<rparr>]"

text \<open>
  A watch that has received a reading before, and a message whose timestamp is 0.
\<close>

definition stale_watch :: "nat \<Rightarrow> ('c::len word, 'o::len word) watch" where
  "stale_watch cap =
     (initial_watch cap)
       \<lparr>s_bg_timestamp := 900, s_bg_string := ''10.2'' @ [NUL],
        s_time_ago_buffer := ''5m'' @ [NUL, NUL]\<rparr>"

definition zero_timestamp_message :: dictionary where
  "zero_timestamp_message =
     [KEY_BG_TIMESTAMP \<mapsto> uint_tuple 4 0,
      KEY_BG_STRING \<mapsto> cstring_tuple ''5.4'',
      KEY_ARROW_INDEX \<mapsto> uint_tuple 1 4,
      KEY_GRAPH_DATA \<mapsto> data_tuple [0xE8, 3, 0, 0, 2, 0, 0, 0, 5, 0, 50, 60],
      compact_KEY_GRAPH_DATA \<mapsto> data_tuple [0xE8, 3, 0, 0, 2, 0, 5, 50, 60]]"

section \<open>Message keys\<close>

named_theorems keys \<open>numeric values of the message keys\<close>

lemmas key_values [keys] =
  KEY_BG_TIMESTAMP_def KEY_BG_STRING_def KEY_DELTA_STRING_def KEY_ARROW_INDEX_def
  KEY_GRAPH_DATA_def KEY_GRAPH_HIGH_LINE_def KEY_GRAPH_LOW_LINE_def
  compact_KEY_GRAPH_DATA_def compact_KEY_GRAPH_HIGH_LINE_def compact_KEY_GRAPH_LOW_LINE_def

section \<open>Bytes and words\<close>

lemma byte_bound: "unat (b :: 8 word) < 256"
  using unsigned_less [of b, where 'a = nat] by simp

lemma unat_ucast_byte16: "unat (ucast (b :: 8 word) :: 16 word) = unat b"
  using byte_bound [of b] by (simp add: unsigned_ucast_eq take_bit_nat_eq_self)

lemma unat_ucast_byte32: "unat (ucast (b :: 8 word) :: 32 word) = unat b"
  using byte_bound [of b] by (simp add: unsigned_ucast_eq take_bit_nat_eq_self)

lemma unat_le16:
  fixes b0 b1 :: "8 word"
  shows "unat (ucast b0 OR push_bit 8 (ucast b1) :: 16 word) = unat b0 + 256 * unat b1"
proof -
  have "(ucast b0 OR push_bit 8 (ucast b1) :: 16 word) = ucast b0 + push_bit 8 (ucast b1)"
    by (rule disjunctive_add [symmetric]) (auto simp: bit_simps dest: bit_imp_le_length)
  moreover have "unat (ucast b0 + push_bit 8 (ucast b1) :: 16 word) = unat b0 + 256 * unat b1"
    using byte_bound [of b0] byte_bound [of b1]
    by (simp add: unat_word_ariths push_bit_eq_mult unat_ucast_byte16)
  ultimately show ?thesis by simp
qed

lemma unat_double:
  fixes b :: "8 word"
  shows "unat (ucast b * 2 :: 16 word) = 2 * unat b"
  using byte_bound [of b] by (simp add: unat_word_ariths unat_ucast_byte16)

lemma unat_le32:
  fixes b0 b1 b2 b3 :: "8 word"
  shows "unat (ucast b0 OR push_bit 8 (ucast b1) OR push_bit 16 (ucast b2) OR push_bit 24 (ucast b3) :: 32 word)
         = unat b0 + 256 * unat b1 + 65536 * unat b2 + 16777216 * unat b3"
proof -
  have 1: "(push_bit 16 (ucast b2) OR push_bit 24 (ucast b3) :: 32 word) = push_bit 16 (ucast b2) + push_bit 24 (ucast b3)"
    by (rule disjunctive_add [symmetric]) (auto simp: bit_simps dest: bit_imp_le_length)
  have 2: "(push_bit 8 (ucast b1) OR (push_bit 16 (ucast b2) OR push_bit 24 (ucast b3)) :: 32 word) = push_bit 8 (ucast b1) + (push_bit 16 (ucast b2) OR push_bit 24 (ucast b3))"
    by (rule disjunctive_add [symmetric]) (auto simp: bit_simps dest: bit_imp_le_length)
  have 3: "(ucast b0 OR (push_bit 8 (ucast b1) OR (push_bit 16 (ucast b2) OR push_bit 24 (ucast b3))) :: 32 word) = ucast b0 + (push_bit 8 (ucast b1) OR (push_bit 16 (ucast b2) OR push_bit 24 (ucast b3)))"
    by (rule disjunctive_add [symmetric]) (auto simp: bit_simps dest: bit_imp_le_length)
  have "(ucast b0 OR push_bit 8 (ucast b1) OR push_bit 16 (ucast b2) OR push_bit 24 (ucast b3) :: 32 word)
      = ucast b0 + (push_bit 8 (ucast b1) + (push_bit 16 (ucast b2) + push_bit 24 (ucast b3)))"
    unfolding 1 [symmetric] 2 [symmetric] 3 [symmetric] by (simp add: ac_simps)
  moreover have "unat (ucast b0 + (push_bit 8 (ucast b1) + (push_bit 16 (ucast b2) + push_bit 24 (ucast b3))) :: 32 word)
      = unat b0 + 256 * unat b1 + 65536 * unat b2 + 16777216 * unat b3"
    using byte_bound [of b0] byte_bound [of b1] byte_bound [of b2] byte_bound [of b3]
    by (simp add: unat_word_ariths push_bit_eq_mult unat_ucast_byte32)
  ultimately show ?thesis by simp
qed

section \<open>The loops\<close>

lemma for_loop_fold: "for_loop i n body st = fold body [i..<n] st"
proof (induction i n body st rule: for_loop.induct)
  case (1 i n body st)
  show ?case
    by (subst for_loop.simps) (simp add: 1 upt_rec)
qed

lemma fold_update:
  "n \<le> length xs \<Longrightarrow> fold (\<lambda>i ys. ys[i := f i]) [0..<n] xs = map f [0..<n] @ drop n xs"
proof (induction n)
  case 0
  show ?case by simp
next
  case (Suc n)
  then have "fold (\<lambda>i ys. ys[i := f i]) [0..<Suc n] xs = (map f [0..<n] @ drop n xs)[n := f n]"
    by simp
  also have "\<dots> = map f [0..<n] @ (drop n xs)[0 := f n]"
    by (simp add: list_update_append)
  also have "(drop n xs)[0 := f n] = f n # drop (Suc n) xs"
    using Suc.prems by (simp add: Cons_nth_drop_Suc [symmetric])
  finally show ?case by simp
qed

lemma fold_parse_offset:
  "fold (parse_offset d) [0..<n] (s, tr) =
     (s\<lparr>s_graph_offsets :=
          fold (\<lambda>i ys. ys[i := ucast (d ! (6 + i * 2)) OR push_bit 8 (ucast (d ! (6 + i * 2 + 1)))])
            [0..<n] (s_graph_offsets s)\<rparr>,
      tr @ offset_accesses n)"
  by (induction n) (simp_all add: parse_offset_def offset_accesses_def)

lemma parse_offsets_loop:
  assumes "n \<le> length (s_graph_offsets s)"
  shows "for_loop 0 n (parse_offset d) (s, tr) =
     (s\<lparr>s_graph_offsets := offsets_of d n @ drop n (s_graph_offsets s)\<rparr>, tr @ offset_accesses n)"
  using assms by (simp add: for_loop_fold fold_parse_offset fold_update offsets_of_def)

lemma fold_parse_bg_value:
  "fold (parse_bg_value d) [0..<n] (s, tr) =
     (s\<lparr>s_graph_bg_values :=
          fold (\<lambda>i ys. ys[i := ucast (d ! (6 + unat (s_graph_count s) * 2 + i)) * 2])
            [0..<n] (s_graph_bg_values s)\<rparr>,
      tr @ concat (map (\<lambda>i. [PayloadRead (int (6 + unat (s_graph_count s) * 2 + i)),
                                BgValuesWrite (int i)]) [0..<n]))"
  by (induction n) (simp_all add: parse_bg_value_def)

lemma parse_bg_values_loop:
  assumes "n \<le> length (s_graph_bg_values s)" and "unat (s_graph_count s) = n"
  shows "for_loop 0 n (parse_bg_value d) (s, tr) =
     (s\<lparr>s_graph_bg_values := bg_values_of d n @ drop n (s_graph_bg_values s)\<rparr>,
      tr @ bg_value_accesses n)"
  using assms
  by (simp add: for_loop_fold fold_parse_bg_value fold_update bg_values_of_def bg_value_accesses_def)

section \<open>The graph block of main.c\<close>

lemma unat_clamped_count:
  "unat (clamped_count d) = min (unat (d ! 4) + 256 * unat (d ! 5)) 300"
  by (simp add: clamped_count_def Let_def unat_le16 MAX_GRAPH_POINTS_def)

lemma graph_data_absent: "graph_data None s = (s, [])"
  by (simp add: graph_data_def)

lemma graph_data_short: "t_length t < 6 \<Longrightarrow> graph_data (Some t) s = (s, [])"
  by (simp add: graph_data_def)

lemma graph_data_unfold:
  "graph_data (Some t) s =
     (if 6 \<le> t_length t then
        let d = data (t_value t);
            s1 = s\<lparr>s_graph_ref_timestamp := ref_timestamp_of d, s_graph_count := clamped_count d\<rparr>;
            tr = map PayloadRead [0, 1, 2, 3, 4, 5]
        in if 6 + unat (clamped_count d) * 3 \<le> t_length t then
             let (s, tr) = for_loop 0 (unat (clamped_count d)) (parse_offset d) (s1, tr);
                 (s, tr) = for_loop 0 (unat (s_graph_count s)) (parse_bg_value d) (s, tr);
                 tr = tr @ [OffsetsRead 0, BgValuesRead 0,
                            OffsetsRead (int (unat (s_graph_count s)) - 1),
                            BgValuesRead (int (unat (s_graph_count s)) - 1)];
                 s = (case s_graph_layer s of None \<Rightarrow> s
                      | Some dirty \<Rightarrow> s\<lparr>s_graph_layer := Some True\<rparr>)
             in (s, tr)
           else (s1, tr)
      else (s, []))"
  by (simp add: graph_data_def Let_def ref_timestamp_of_def clamped_count_def)

lemma graph_data_too_short:
  assumes "6 \<le> t_length t" and "t_length t < 6 + unat (clamped_count (data (t_value t))) * 3"
  shows "graph_data (Some t) s =
     (s\<lparr>s_graph_ref_timestamp := ref_timestamp_of (data (t_value t)),
        s_graph_count := clamped_count (data (t_value t))\<rparr>,
      map PayloadRead [0, 1, 2, 3, 4, 5])"
  using assms by (simp add: graph_data_unfold Let_def)

lemma graph_data_accepted:
  assumes "6 + unat (clamped_count (data (t_value t))) * 3 \<le> t_length t"
    and "MAX_GRAPH_POINTS \<le> length (s_graph_offsets s)"
    and "MAX_GRAPH_POINTS \<le> length (s_graph_bg_values s)"
    and "d = data (t_value t)" and "c = unat (clamped_count d)"
  shows "graph_data (Some t) s =
     (s\<lparr>s_graph_ref_timestamp := ref_timestamp_of d,
        s_graph_count := clamped_count d,
        s_graph_offsets := offsets_of d c @ drop c (s_graph_offsets s),
        s_graph_bg_values := bg_values_of d c @ drop c (s_graph_bg_values s),
        s_graph_layer := map_option (\<lambda>dirty. True) (s_graph_layer s)\<rparr>,
      map PayloadRead [0, 1, 2, 3, 4, 5] @ offset_accesses c @ bg_value_accesses c @
      [OffsetsRead 0, BgValuesRead 0, OffsetsRead (int c - 1), BgValuesRead (int c - 1)])"
proof -
  have c: "c \<le> 300"
    using assms(5) by (simp add: unat_clamped_count)
  define s1 where "s1 = s\<lparr>s_graph_ref_timestamp := ref_timestamp_of d, s_graph_count := clamped_count d\<rparr>"
  have l1: "for_loop 0 c (parse_offset d) (s1, tr) =
      (s1\<lparr>s_graph_offsets := offsets_of d c @ drop c (s_graph_offsets s)\<rparr>, tr @ offset_accesses c)" for tr
    using c assms(2) parse_offsets_loop [of c s1 d tr] by (simp add: s1_def MAX_GRAPH_POINTS_def)
  have l2: "for_loop 0 c (parse_bg_value d) (s1\<lparr>s_graph_offsets := xs\<rparr>, tr) =
      (s1\<lparr>s_graph_offsets := xs, s_graph_bg_values := bg_values_of d c @ drop c (s_graph_bg_values s)\<rparr>,
       tr @ bg_value_accesses c)" for tr xs
    using c assms(3,5) parse_bg_values_loop [of c "s1\<lparr>s_graph_offsets := xs\<rparr>" d tr]
    by (simp add: s1_def MAX_GRAPH_POINTS_def)
  have "graph_data (Some t) s =
      (let (s, tr) = for_loop 0 c (parse_offset d) (s1, map PayloadRead [0, 1, 2, 3, 4, 5]);
           (s, tr) = for_loop 0 (unat (s_graph_count s)) (parse_bg_value d) (s, tr);
           tr = tr @ [OffsetsRead 0, BgValuesRead 0,
                      OffsetsRead (int (unat (s_graph_count s)) - 1),
                      BgValuesRead (int (unat (s_graph_count s)) - 1)];
           s = (case s_graph_layer s of None \<Rightarrow> s | Some dirty \<Rightarrow> s\<lparr>s_graph_layer := Some True\<rparr>)
       in (s, tr))"
    using assms(1) unfolding graph_data_unfold s1_def assms(4) [symmetric] assms(5) [symmetric] Let_def
    by simp
  also have "\<dots> = (s1\<lparr>s_graph_offsets := offsets_of d c @ drop c (s_graph_offsets s),
        s_graph_bg_values := bg_values_of d c @ drop c (s_graph_bg_values s),
        s_graph_layer := map_option (\<lambda>dirty. True) (s_graph_layer s)\<rparr>,
      map PayloadRead [0, 1, 2, 3, 4, 5] @ offset_accesses c @ bg_value_accesses c @
      [OffsetsRead 0, BgValuesRead 0, OffsetsRead (int c - 1), BgValuesRead (int c - 1)])"
  proof -
    have cnt: "unat (s_graph_count (s1\<lparr>s_graph_offsets := xs\<rparr>)) = c" for xs
      by (simp add: s1_def assms(5))
    show ?thesis
      unfolding l1 Let_def prod.case cnt l2
      by (cases "s_graph_layer s") (simp_all add: s1_def assms(5))
  qed
  finally show ?thesis by (simp add: s1_def)
qed

lemma graph_data_keeps:
  "s_bg_timestamp (fst (graph_data g s)) = s_bg_timestamp s"
  "s_bg_string (fst (graph_data g s)) = s_bg_string s"
  "s_delta_string (fst (graph_data g s)) = s_delta_string s"
  "s_arrow_index (fst (graph_data g s)) = s_arrow_index s"
  "s_time_ago_buffer (fst (graph_data g s)) = s_time_ago_buffer s"
  "s_arrow_bitmap (fst (graph_data g s)) = s_arrow_bitmap s"
  "arrow_layer_bitmap (fst (graph_data g s)) = arrow_layer_bitmap s"
  "s_graph_high_line (fst (graph_data g s)) = s_graph_high_line s"
  "s_graph_low_line (fst (graph_data g s)) = s_graph_low_line s"
  by (cases g; simp add: graph_data_absent graph_data_unfold Let_def for_loop_fold fold_parse_offset fold_parse_bg_value
      split: option.split)+

lemma graph_data_frame:
  "graph_data g (s\<lparr>s_bg_timestamp := a\<rparr>) = apfst (\<lambda>s. s\<lparr>s_bg_timestamp := a\<rparr>) (graph_data g s)"
  "graph_data g (s\<lparr>s_bg_string := b\<rparr>) = apfst (\<lambda>s. s\<lparr>s_bg_string := b\<rparr>) (graph_data g s)"
  "graph_data g (s\<lparr>s_arrow_index := c\<rparr>) = apfst (\<lambda>s. s\<lparr>s_arrow_index := c\<rparr>) (graph_data g s)"
  "graph_data g (s\<lparr>s_delta_string := e\<rparr>) = apfst (\<lambda>s. s\<lparr>s_delta_string := e\<rparr>) (graph_data g s)"
  by (cases g; simp add: graph_data_absent graph_data_unfold Let_def for_loop_fold fold_parse_offset fold_parse_bg_value
      split: option.split)+

lemma optional_update:
  "(case x of None \<Rightarrow> s | Some t \<Rightarrow> s\<lparr>s_bg_string := f t\<rparr>) =
     s\<lparr>s_bg_string := (case x of None \<Rightarrow> s_bg_string s | Some t \<Rightarrow> f t)\<rparr>"
  "(case y of None \<Rightarrow> s | Some t \<Rightarrow> s\<lparr>s_arrow_index := g t\<rparr>) =
     s\<lparr>s_arrow_index := (case y of None \<Rightarrow> s_arrow_index s | Some t \<Rightarrow> g t)\<rparr>"
  "(case x of None \<Rightarrow> s | Some t \<Rightarrow> s\<lparr>s_delta_string := f t\<rparr>) =
     s\<lparr>s_delta_string := (case x of None \<Rightarrow> s_delta_string s | Some t \<Rightarrow> f t)\<rparr>"
  "(case z of None \<Rightarrow> s | Some t \<Rightarrow> s\<lparr>s_graph_high_line := h t\<rparr>) =
     s\<lparr>s_graph_high_line := (case z of None \<Rightarrow> s_graph_high_line s | Some t \<Rightarrow> h t)\<rparr>"
  "(case z of None \<Rightarrow> s | Some t \<Rightarrow> s\<lparr>s_graph_low_line := h t\<rparr>) =
     s\<lparr>s_graph_low_line := (case z of None \<Rightarrow> s_graph_low_line s | Some t \<Rightarrow> h t)\<rparr>"
  by (simp_all split: option.split)

lemma new_xdrip_data_callback_eq:
  assumes "dict_find iter KEY_BG_TIMESTAMP = Some ts"
  shows "new_xdrip_data_callback now iter s =
     (update_displayed_time_ago now (update_displayed_xdrip_data
        ((fst (graph_data (dict_find iter KEY_GRAPH_DATA) s))
           \<lparr>s_bg_timestamp := uint32 (t_value ts),
            s_bg_string := (case dict_find iter KEY_BG_STRING of None \<Rightarrow> s_bg_string s
               | Some t \<Rightarrow> safe_strncpy (s_bg_string s) (cstring (t_value t)) 5),
            s_arrow_index := (case dict_find iter KEY_ARROW_INDEX of None \<Rightarrow> s_arrow_index s
               | Some t \<Rightarrow> uint8 (t_value t)),
            s_delta_string := (case dict_find iter KEY_DELTA_STRING of None \<Rightarrow> s_delta_string s
               | Some t \<Rightarrow> safe_strncpy (s_delta_string s) (cstring (t_value t)) 6),
            s_graph_high_line := (case dict_find iter KEY_GRAPH_HIGH_LINE of None \<Rightarrow> s_graph_high_line s
               | Some t \<Rightarrow> uint16 (t_value t)),
            s_graph_low_line := (case dict_find iter KEY_GRAPH_LOW_LINE of None \<Rightarrow> s_graph_low_line s
               | Some t \<Rightarrow> uint16 (t_value t))\<rparr>)),
      snd (graph_data (dict_find iter KEY_GRAPH_DATA) s))"
  using assms
  by (simp add: new_xdrip_data_callback_def Let_def optional_update graph_data_frame
      graph_data_keeps split_beta cong: option.case_cong)

section \<open>The graph block of the 60-point revision\<close>

lemma fold_compact_parse_offset:
  "fold (compact_parse_offset d) [0..<n] (s, tr) =
     (s\<lparr>s_graph_offsets := fold (\<lambda>i ys. ys[i := d ! (5 + i)]) [0..<n] (s_graph_offsets s)\<rparr>,
      tr @ compact_offset_accesses n)"
  by (induction n) (simp_all add: compact_parse_offset_def compact_offset_accesses_def)

lemma compact_parse_offsets_loop:
  assumes "n \<le> length (s_graph_offsets s)"
  shows "for_loop 0 n (compact_parse_offset d) (s, tr) =
     (s\<lparr>s_graph_offsets := compact_offsets_of d n @ drop n (s_graph_offsets s)\<rparr>,
      tr @ compact_offset_accesses n)"
  using assms
  by (simp add: for_loop_fold fold_compact_parse_offset fold_update compact_offsets_of_def)

lemma fold_compact_parse_bg_value:
  "fold (compact_parse_bg_value d) [0..<n] (s, tr) =
     (s\<lparr>s_graph_bg_values :=
          fold (\<lambda>i ys. ys[i := ucast (d ! (5 + unat (s_graph_count s) + i)) * 2])
            [0..<n] (s_graph_bg_values s)\<rparr>,
      tr @ concat (map (\<lambda>i. [PayloadRead (int (5 + unat (s_graph_count s) + i)),
                                BgValuesWrite (int i)]) [0..<n]))"
  by (induction n) (simp_all add: compact_parse_bg_value_def)

lemma compact_parse_bg_values_loop:
  assumes "n \<le> length (s_graph_bg_values s)" and "unat (s_graph_count s) = n"
  shows "for_loop 0 n (compact_parse_bg_value d) (s, tr) =
     (s\<lparr>s_graph_bg_values := compact_bg_values_of d n @ drop n (s_graph_bg_values s)\<rparr>,
      tr @ compact_bg_value_accesses n)"
  using assms
  by (simp add: for_loop_fold fold_compact_parse_bg_value fold_update compact_bg_values_of_def
      compact_bg_value_accesses_def)

lemma unat_compact_clamped_count:
  "unat (compact_clamped_count d) = min (unat (d ! 4)) 60"
  by (simp add: compact_clamped_count_def compact_MAX_GRAPH_POINTS_def)

lemma compact_graph_data_absent: "compact_graph_data None s = (s, [])"
  by (simp add: compact_graph_data_def)

lemma compact_graph_data_short: "t_length t < 5 \<Longrightarrow> compact_graph_data (Some t) s = (s, [])"
  by (simp add: compact_graph_data_def)

lemma compact_graph_data_unfold:
  "compact_graph_data (Some t) s =
     (if 5 \<le> t_length t then
        let d = data (t_value t);
            s1 = s\<lparr>s_graph_ref_timestamp := ref_timestamp_of d,
                   s_graph_count := compact_clamped_count d\<rparr>;
            tr = map PayloadRead [0, 1, 2, 3, 4]
        in if 5 + unat (compact_clamped_count d) * 2 \<le> t_length t then
             let (s, tr) = for_loop 0 (unat (compact_clamped_count d)) (compact_parse_offset d) (s1, tr);
                 (s, tr) = for_loop 0 (unat (s_graph_count s)) (compact_parse_bg_value d) (s, tr);
                 s = (case s_graph_layer s of None \<Rightarrow> s
                      | Some dirty \<Rightarrow> s\<lparr>s_graph_layer := Some True\<rparr>)
             in (s, tr)
           else (s1, tr)
      else (s, []))"
  by (simp add: compact_graph_data_def Let_def ref_timestamp_of_def compact_clamped_count_def)

lemma compact_graph_data_too_short:
  assumes "5 \<le> t_length t"
    and "t_length t < 5 + unat (compact_clamped_count (data (t_value t))) * 2"
  shows "compact_graph_data (Some t) s =
     (s\<lparr>s_graph_ref_timestamp := ref_timestamp_of (data (t_value t)),
        s_graph_count := compact_clamped_count (data (t_value t))\<rparr>,
      map PayloadRead [0, 1, 2, 3, 4])"
  using assms by (simp add: compact_graph_data_unfold Let_def)

lemma compact_graph_data_accepted:
  assumes "5 + unat (compact_clamped_count (data (t_value t))) * 2 \<le> t_length t"
    and "compact_MAX_GRAPH_POINTS \<le> length (s_graph_offsets s)"
    and "compact_MAX_GRAPH_POINTS \<le> length (s_graph_bg_values s)"
    and "d = data (t_value t)" and "c = unat (compact_clamped_count d)"
  shows "compact_graph_data (Some t) s =
     (s\<lparr>s_graph_ref_timestamp := ref_timestamp_of d,
        s_graph_count := compact_clamped_count d,
        s_graph_offsets := compact_offsets_of d c @ drop c (s_graph_offsets s),
        s_graph_bg_values := compact_bg_values_of d c @ drop c (s_graph_bg_values s),
        s_graph_layer := map_option (\<lambda>dirty. True) (s_graph_layer s)\<rparr>,
      map PayloadRead [0, 1, 2, 3, 4] @ compact_offset_accesses c @ compact_bg_value_accesses c)"
proof -
  have c: "c \<le> 60"
    using assms(5) by (simp add: unat_compact_clamped_count)
  define s1 where "s1 = s\<lparr>s_graph_ref_timestamp := ref_timestamp_of d,
    s_graph_count := compact_clamped_count d\<rparr>"
  have l1: "for_loop 0 c (compact_parse_offset d) (s1, tr) =
      (s1\<lparr>s_graph_offsets := compact_offsets_of d c @ drop c (s_graph_offsets s)\<rparr>,
       tr @ compact_offset_accesses c)" for tr
    using c assms(2) compact_parse_offsets_loop [of c s1 d tr]
    by (simp add: s1_def compact_MAX_GRAPH_POINTS_def)
  have l2: "for_loop 0 c (compact_parse_bg_value d) (s1\<lparr>s_graph_offsets := xs\<rparr>, tr) =
      (s1\<lparr>s_graph_offsets := xs,
          s_graph_bg_values := compact_bg_values_of d c @ drop c (s_graph_bg_values s)\<rparr>,
       tr @ compact_bg_value_accesses c)" for tr xs
    using c assms(3,5) compact_parse_bg_values_loop [of c "s1\<lparr>s_graph_offsets := xs\<rparr>" d tr]
    by (simp add: s1_def compact_MAX_GRAPH_POINTS_def)
  have "compact_graph_data (Some t) s =
      (let (s, tr) = for_loop 0 c (compact_parse_offset d) (s1, map PayloadRead [0, 1, 2, 3, 4]);
           (s, tr) = for_loop 0 (unat (s_graph_count s)) (compact_parse_bg_value d) (s, tr);
           s = (case s_graph_layer s of None \<Rightarrow> s | Some dirty \<Rightarrow> s\<lparr>s_graph_layer := Some True\<rparr>)
       in (s, tr))"
    using assms(1)
    unfolding compact_graph_data_unfold s1_def assms(4) [symmetric] assms(5) [symmetric] Let_def
    by simp
  also have "\<dots> = (s1\<lparr>s_graph_offsets := compact_offsets_of d c @ drop c (s_graph_offsets s),
        s_graph_bg_values := compact_bg_values_of d c @ drop c (s_graph_bg_values s),
        s_graph_layer := map_option (\<lambda>dirty. True) (s_graph_layer s)\<rparr>,
      map PayloadRead [0, 1, 2, 3, 4] @ compact_offset_accesses c @ compact_bg_value_accesses c)"
  proof -
    have cnt: "unat (s_graph_count (s1\<lparr>s_graph_offsets := xs\<rparr>)) = c" for xs
      by (simp add: s1_def assms(5))
    show ?thesis
      unfolding l1 Let_def prod.case cnt l2
      by (cases "s_graph_layer s") (simp_all add: s1_def)
  qed
  finally show ?thesis by (simp add: s1_def)
qed

lemma compact_graph_data_keeps:
  "s_bg_timestamp (fst (compact_graph_data g s)) = s_bg_timestamp s"
  "s_bg_string (fst (compact_graph_data g s)) = s_bg_string s"
  "s_delta_string (fst (compact_graph_data g s)) = s_delta_string s"
  "s_arrow_index (fst (compact_graph_data g s)) = s_arrow_index s"
  "s_time_ago_buffer (fst (compact_graph_data g s)) = s_time_ago_buffer s"
  "s_arrow_bitmap (fst (compact_graph_data g s)) = s_arrow_bitmap s"
  "arrow_layer_bitmap (fst (compact_graph_data g s)) = arrow_layer_bitmap s"
  "s_graph_high_line (fst (compact_graph_data g s)) = s_graph_high_line s"
  "s_graph_low_line (fst (compact_graph_data g s)) = s_graph_low_line s"
  by (cases g; simp add: compact_graph_data_absent compact_graph_data_unfold Let_def for_loop_fold
      fold_compact_parse_offset fold_compact_parse_bg_value split: option.split)+

lemma compact_graph_data_frame:
  "compact_graph_data g (s\<lparr>s_bg_timestamp := a\<rparr>) = apfst (\<lambda>s. s\<lparr>s_bg_timestamp := a\<rparr>) (compact_graph_data g s)"
  "compact_graph_data g (s\<lparr>s_bg_string := b\<rparr>) = apfst (\<lambda>s. s\<lparr>s_bg_string := b\<rparr>) (compact_graph_data g s)"
  "compact_graph_data g (s\<lparr>s_arrow_index := c\<rparr>) = apfst (\<lambda>s. s\<lparr>s_arrow_index := c\<rparr>) (compact_graph_data g s)"
  "compact_graph_data g (s\<lparr>s_delta_string := e\<rparr>) = apfst (\<lambda>s. s\<lparr>s_delta_string := e\<rparr>) (compact_graph_data g s)"
  by (cases g; simp add: compact_graph_data_absent compact_graph_data_unfold Let_def for_loop_fold
      fold_compact_parse_offset fold_compact_parse_bg_value split: option.split)+

lemma compact_new_xdrip_data_callback_eq:
  assumes "dict_find iter KEY_BG_TIMESTAMP = Some ts"
  shows "compact_new_xdrip_data_callback now iter s =
     (update_displayed_time_ago now (update_displayed_xdrip_data
        ((fst (compact_graph_data (dict_find iter compact_KEY_GRAPH_DATA) s))
           \<lparr>s_bg_timestamp := uint32 (t_value ts),
            s_bg_string := (case dict_find iter KEY_BG_STRING of None \<Rightarrow> s_bg_string s
               | Some t \<Rightarrow> safe_strncpy (s_bg_string s) (cstring (t_value t)) 5),
            s_arrow_index := (case dict_find iter KEY_ARROW_INDEX of None \<Rightarrow> s_arrow_index s
               | Some t \<Rightarrow> uint8 (t_value t)),
            s_delta_string := (case dict_find iter KEY_DELTA_STRING of None \<Rightarrow> s_delta_string s
               | Some t \<Rightarrow> safe_strncpy (s_delta_string s) (cstring (t_value t)) 6),
            s_graph_high_line := (case dict_find iter compact_KEY_GRAPH_HIGH_LINE of None \<Rightarrow> s_graph_high_line s
               | Some t \<Rightarrow> uint16 (t_value t)),
            s_graph_low_line := (case dict_find iter compact_KEY_GRAPH_LOW_LINE of None \<Rightarrow> s_graph_low_line s
               | Some t \<Rightarrow> uint16 (t_value t))\<rparr>)),
      snd (compact_graph_data (dict_find iter compact_KEY_GRAPH_DATA) s))"
  using assms
  by (simp add: compact_new_xdrip_data_callback_def Let_def optional_update compact_graph_data_frame
      compact_graph_data_keeps split_beta cong: option.case_cong)

section \<open>The display updates\<close>

lemma update_displayed_xdrip_data_keeps:
  "s_bg_timestamp (update_displayed_xdrip_data s) = s_bg_timestamp s"
  "s_bg_string (update_displayed_xdrip_data s) = s_bg_string s"
  "s_delta_string (update_displayed_xdrip_data s) = s_delta_string s"
  "s_arrow_index (update_displayed_xdrip_data s) = s_arrow_index s"
  "s_time_ago_buffer (update_displayed_xdrip_data s) = s_time_ago_buffer s"
  "s_graph_layer (update_displayed_xdrip_data s) = s_graph_layer s"
  "s_graph_ref_timestamp (update_displayed_xdrip_data s) = s_graph_ref_timestamp s"
  "s_graph_count (update_displayed_xdrip_data s) = s_graph_count s"
  "s_graph_offsets (update_displayed_xdrip_data s) = s_graph_offsets s"
  "s_graph_bg_values (update_displayed_xdrip_data s) = s_graph_bg_values s"
  "s_graph_high_line (update_displayed_xdrip_data s) = s_graph_high_line s"
  "s_graph_low_line (update_displayed_xdrip_data s) = s_graph_low_line s"
  by (simp_all add: update_displayed_xdrip_data_def Let_def)

lemma update_displayed_time_ago_keeps:
  "s_bg_timestamp (update_displayed_time_ago now s) = s_bg_timestamp s"
  "s_bg_string (update_displayed_time_ago now s) = s_bg_string s"
  "s_delta_string (update_displayed_time_ago now s) = s_delta_string s"
  "s_arrow_index (update_displayed_time_ago now s) = s_arrow_index s"
  "s_arrow_bitmap (update_displayed_time_ago now s) = s_arrow_bitmap s"
  "arrow_layer_bitmap (update_displayed_time_ago now s) = arrow_layer_bitmap s"
  "s_graph_layer (update_displayed_time_ago now s) = s_graph_layer s"
  "s_graph_ref_timestamp (update_displayed_time_ago now s) = s_graph_ref_timestamp s"
  "s_graph_count (update_displayed_time_ago now s) = s_graph_count s"
  "s_graph_offsets (update_displayed_time_ago now s) = s_graph_offsets s"
  "s_graph_bg_values (update_displayed_time_ago now s) = s_graph_bg_values s"
  "s_graph_high_line (update_displayed_time_ago now s) = s_graph_high_line s"
  "s_graph_low_line (update_displayed_time_ago now s) = s_graph_low_line s"
  by (simp_all add: update_displayed_time_ago_def Let_def)

lemma update_displayed_time_ago_sentinel:
  "s_bg_timestamp s = 0 \<Longrightarrow> update_displayed_time_ago now s = s"
  by (simp add: update_displayed_time_ago_def)

lemma length_ARROWS: "length ARROWS = 8"
  by (simp add: ARROWS_def)

lemma arrow_shown:
  "arrow_layer_bitmap (update_displayed_xdrip_data s) =
     (if 0 < s_arrow_index s \<and> unat (s_arrow_index s) < 8
      then Some (ARROWS ! unat (s_arrow_index s)) else None)"
  by (simp add: update_displayed_xdrip_data_def Let_def length_ARROWS)

lemmas display_keeps = update_displayed_xdrip_data_keeps update_displayed_time_ago_keeps

lemma safe_strncpy_example:
  "safe_strncpy (''---'' @ [NUL, NUL]) (''5.4'' @ [NUL]) 5 = ''5.4'' @ [NUL, NUL]"
  by code_simp

lemma time_ago_only_buffer:
  "(update_displayed_time_ago now s)\<lparr>s_time_ago_buffer := b\<rparr> = s\<lparr>s_time_ago_buffer := b\<rparr>"
  by (simp add: update_displayed_time_ago_def Let_def)

lemma zero_timestamp_display:
  "update_displayed_time_ago now (update_displayed_xdrip_data (x\<lparr>s_bg_timestamp := 0\<rparr>)) =
     (update_displayed_time_ago now (update_displayed_xdrip_data (x\<lparr>s_bg_timestamp := t\<rparr>)))
       \<lparr>s_bg_timestamp := 0, s_time_ago_buffer := s_time_ago_buffer x\<rparr>"
proof -
  have "(update_displayed_time_ago now (update_displayed_xdrip_data (x\<lparr>s_bg_timestamp := t\<rparr>)))
        \<lparr>s_bg_timestamp := 0, s_time_ago_buffer := s_time_ago_buffer x\<rparr> =
      ((update_displayed_time_ago now (update_displayed_xdrip_data (x\<lparr>s_bg_timestamp := t\<rparr>)))
        \<lparr>s_time_ago_buffer := s_time_ago_buffer x\<rparr>)\<lparr>s_bg_timestamp := 0\<rparr>"
    by simp
  also have "\<dots> = ((update_displayed_xdrip_data (x\<lparr>s_bg_timestamp := t\<rparr>))
        \<lparr>s_time_ago_buffer := s_time_ago_buffer x\<rparr>)\<lparr>s_bg_timestamp := 0\<rparr>"
    by (simp only: time_ago_only_buffer)
  also have "\<dots> = update_displayed_xdrip_data (x\<lparr>s_bg_timestamp := 0\<rparr>)"
    by (simp add: update_displayed_xdrip_data_def Let_def)
  also have "\<dots> = update_displayed_time_ago now (update_displayed_xdrip_data (x\<lparr>s_bg_timestamp := 0\<rparr>))"
    by (simp add: update_displayed_time_ago_sentinel display_keeps)
  finally show ?thesis by simp
qed

lemma dict_find_other:
  "dict_find (iter(KEY_BG_TIMESTAMP \<mapsto> t)) KEY_BG_STRING = dict_find iter KEY_BG_STRING"
  "dict_find (iter(KEY_BG_TIMESTAMP \<mapsto> t)) KEY_DELTA_STRING = dict_find iter KEY_DELTA_STRING"
  "dict_find (iter(KEY_BG_TIMESTAMP \<mapsto> t)) KEY_ARROW_INDEX = dict_find iter KEY_ARROW_INDEX"
  "dict_find (iter(KEY_BG_TIMESTAMP \<mapsto> t)) KEY_GRAPH_DATA = dict_find iter KEY_GRAPH_DATA"
  "dict_find (iter(KEY_BG_TIMESTAMP \<mapsto> t)) KEY_GRAPH_HIGH_LINE = dict_find iter KEY_GRAPH_HIGH_LINE"
  "dict_find (iter(KEY_BG_TIMESTAMP \<mapsto> t)) KEY_GRAPH_LOW_LINE = dict_find iter KEY_GRAPH_LOW_LINE"
  "dict_find (iter(KEY_BG_TIMESTAMP \<mapsto> t)) compact_KEY_GRAPH_DATA = dict_find iter compact_KEY_GRAPH_DATA"
  "dict_find (iter(KEY_BG_TIMESTAMP \<mapsto> t)) compact_KEY_GRAPH_HIGH_LINE =
     dict_find iter compact_KEY_GRAPH_HIGH_LINE"
  "dict_find (iter(KEY_BG_TIMESTAMP \<mapsto> t)) compact_KEY_GRAPH_LOW_LINE =
     dict_find iter compact_KEY_GRAPH_LOW_LINE"
  by (simp_all add: dict_find_def keys)

lemma dict_find_timestamp:
  "dict_find (iter(KEY_BG_TIMESTAMP \<mapsto> t)) KEY_BG_TIMESTAMP = Some t"
  by (simp add: dict_find_def)

lemma zero_timestamp_display':
  assumes "z = y\<lparr>s_bg_timestamp := 0\<rparr>"
  shows "update_displayed_time_ago now (update_displayed_xdrip_data z) =
     (update_displayed_time_ago now (update_displayed_xdrip_data y))
       \<lparr>s_bg_timestamp := 0, s_time_ago_buffer := s_time_ago_buffer y\<rparr>"
  using zero_timestamp_display [of now y "s_bg_timestamp y"] by (simp add: assms)

lemma zero_timestamp_main:
  assumes "dict_find iter KEY_BG_TIMESTAMP = Some ts" and "uint32 (t_value ts) = 0"
  shows "fst (new_xdrip_data_callback now iter s) =
     (fst (new_xdrip_data_callback now (iter(KEY_BG_TIMESTAMP \<mapsto> ts')) s))
       \<lparr>s_bg_timestamp := 0, s_time_ago_buffer := s_time_ago_buffer s\<rparr>"
proof -
  define F where "F v = (fst (graph_data (dict_find iter KEY_GRAPH_DATA) s))
           \<lparr>s_bg_timestamp := v,
            s_bg_string := (case dict_find iter KEY_BG_STRING of None \<Rightarrow> s_bg_string s
               | Some t \<Rightarrow> safe_strncpy (s_bg_string s) (cstring (t_value t)) 5),
            s_arrow_index := (case dict_find iter KEY_ARROW_INDEX of None \<Rightarrow> s_arrow_index s
               | Some t \<Rightarrow> uint8 (t_value t)),
            s_delta_string := (case dict_find iter KEY_DELTA_STRING of None \<Rightarrow> s_delta_string s
               | Some t \<Rightarrow> safe_strncpy (s_delta_string s) (cstring (t_value t)) 6),
            s_graph_high_line := (case dict_find iter KEY_GRAPH_HIGH_LINE of None \<Rightarrow> s_graph_high_line s
               | Some t \<Rightarrow> uint16 (t_value t)),
            s_graph_low_line := (case dict_find iter KEY_GRAPH_LOW_LINE of None \<Rightarrow> s_graph_low_line s
               | Some t \<Rightarrow> uint16 (t_value t))\<rparr>" for v
  have l: "fst (new_xdrip_data_callback now iter s) =
      update_displayed_time_ago now (update_displayed_xdrip_data (F 0))"
    by (simp add: new_xdrip_data_callback_eq [OF assms(1)] assms(2) F_def)
  have r: "fst (new_xdrip_data_callback now (iter(KEY_BG_TIMESTAMP \<mapsto> ts')) s) =
      update_displayed_time_ago now (update_displayed_xdrip_data (F (uint32 (t_value ts'))))"
    by (simp add: new_xdrip_data_callback_eq [OF dict_find_timestamp] dict_find_other F_def)
  have zy: "F 0 = (F (uint32 (t_value ts')))\<lparr>s_bg_timestamp := 0\<rparr>"
    by (simp add: F_def)
  have b: "s_time_ago_buffer (F (uint32 (t_value ts'))) = s_time_ago_buffer s"
    by (simp add: F_def graph_data_keeps)
  show ?thesis
    unfolding l r b [symmetric] using zy by (rule zero_timestamp_display')
qed

lemma compact_zero_timestamp_main:
  assumes "dict_find iter KEY_BG_TIMESTAMP = Some ts" and "uint32 (t_value ts) = 0"
  shows "fst (compact_new_xdrip_data_callback now iter s) =
     (fst (compact_new_xdrip_data_callback now (iter(KEY_BG_TIMESTAMP \<mapsto> ts')) s))
       \<lparr>s_bg_timestamp := 0, s_time_ago_buffer := s_time_ago_buffer s\<rparr>"
proof -
  define F where "F v = (fst (compact_graph_data (dict_find iter compact_KEY_GRAPH_DATA) s))
           \<lparr>s_bg_timestamp := v,
            s_bg_string := (case dict_find iter KEY_BG_STRING of None \<Rightarrow> s_bg_string s
               | Some t \<Rightarrow> safe_strncpy (s_bg_string s) (cstring (t_value t)) 5),
            s_arrow_index := (case dict_find iter KEY_ARROW_INDEX of None \<Rightarrow> s_arrow_index s
               | Some t \<Rightarrow> uint8 (t_value t)),
            s_delta_string := (case dict_find iter KEY_DELTA_STRING of None \<Rightarrow> s_delta_string s
               | Some t \<Rightarrow> safe_strncpy (s_delta_string s) (cstring (t_value t)) 6),
            s_graph_high_line := (case dict_find iter compact_KEY_GRAPH_HIGH_LINE of None \<Rightarrow> s_graph_high_line s
               | Some t \<Rightarrow> uint16 (t_value t)),
            s_graph_low_line := (case dict_find iter compact_KEY_GRAPH_LOW_LINE of None \<Rightarrow> s_graph_low_line s
               | Some t \<Rightarrow> uint16 (t_value t))\<rparr>" for v
  have l: "fst (compact_new_xdrip_data_callback now iter s) =
      update_displayed_time_ago now (update_displayed_xdrip_data (F 0))"
    by (simp add: compact_new_xdrip_data_callback_eq [OF assms(1)] assms(2) F_def)
  have r: "fst (compact_new_xdrip_data_callback now (iter(KEY_BG_TIMESTAMP \<mapsto> ts')) s) =
      update_displayed_time_ago now (update_displayed_xdrip_data (F (uint32 (t_value ts'))))"
    by (simp add: compact_new_xdrip_data_callback_eq [OF dict_find_timestamp] dict_find_other F_def)
  have zy: "F 0 = (F (uint32 (t_value ts')))\<lparr>s_bg_timestamp := 0\<rparr>"
    by (simp add: F_def)
  have b: "s_time_ago_buffer (F (uint32 (t_value ts'))) = s_time_ago_buffer s"
    by (simp add: F_def compact_graph_data_keeps)
  show ?thesis
    unfolding l r b [symmetric] using zy by (rule zero_timestamp_display')
qed

section \<open>The string copy\<close>

lemma c_str_no_NUL: "NUL \<notin> set (c_str src)"
  by (auto simp add: c_str_def dest: set_takeWhileD)

lemma c_str_append_NUL: "NUL \<notin> set xs \<Longrightarrow> c_str (xs @ NUL # ys) = xs"
  by (induction xs) (auto simp add: c_str_def)

lemma safe_strncpy_eq:
  assumes "0 < c" and "c \<le> length dest"
  shows "safe_strncpy dest src c =
     take (c - 1) (c_str src) @ replicate (c - min (length (c_str src)) (c - 1)) NUL @ drop c dest"
proof (cases "c \<le> length (c_str src)")
  case True
  from assms(1) obtain k where k: "c = Suc k"
    by (cases c) auto
  have "take c (c_str src) = take k (c_str src) @ [c_str src ! k]"
    using True k by (simp add: take_Suc_conv_app_nth)
  then have "(take c (c_str src) @ drop c dest)[k := NUL] =
      take k (c_str src) @ NUL # drop c dest"
    using True k by (simp add: list_update_append)
  then show ?thesis
    using True k by (simp add: safe_strncpy_def strncpy_def Let_def min_def)
next
  case False
  from assms(1) obtain k where k: "c = Suc k"
    by (cases c) auto
  have m: "length (c_str src) \<le> k"
    using False k by simp
  then have "k - length (c_str src) < Suc k - length (c_str src)"
    by arith
  then have "(c_str src @ replicate (Suc k - length (c_str src)) NUL @ drop c dest) ! k = NUL"
    using m by (simp add: nth_append)
  then have "(c_str src @ replicate (Suc k - length (c_str src)) NUL @ drop c dest)[k := NUL] =
      c_str src @ replicate (Suc k - length (c_str src)) NUL @ drop c dest"
    by (metis list_update_id)
  then show ?thesis
    using False m k by (simp add: safe_strncpy_def strncpy_def Let_def min_def)
qed

section \<open>Decoded values as numbers\<close>

lemma unat_ref_timestamp_of:
  "unat (ref_timestamp_of d) =
     unat (d ! 0) + 256 * unat (d ! 1) + 65536 * unat (d ! 2) + 16777216 * unat (d ! 3)"
  by (simp add: ref_timestamp_of_def unat_le32)

lemma length_closed_forms [simp]:
  "length (offsets_of d n) = n" "length (bg_values_of d n) = n"
  "length (compact_offsets_of d n) = n" "length (compact_bg_values_of d n) = n"
  by (simp_all add: offsets_of_def bg_values_of_def compact_offsets_of_def compact_bg_values_of_def)

lemma unat_double':
  fixes b :: "8 word"
  shows "unat (2 * ucast b :: 16 word) = 2 * unat b"
  using unat_double [of b] by (simp add: mult.commute)

lemma unat_offsets_of:
  "map unat (offsets_of d n) =
     map (\<lambda>i. unat (d ! (6 + 2 * i)) + 256 * unat (d ! (6 + 2 * i + 1))) [0..<n]"
  by (simp add: offsets_of_def unat_le16 mult.commute)

lemma unat_bg_values_of:
  "map unat (bg_values_of d n) = map (\<lambda>i. 2 * unat (d ! (6 + 2 * n + i))) [0..<n]"
  by (simp add: bg_values_of_def unat_double unat_double' mult.commute)

lemma unat_compact_bg_values_of:
  "map unat (compact_bg_values_of d n) = map (\<lambda>i. 2 * unat (d ! (5 + n + i))) [0..<n]"
  by (simp add: compact_bg_values_of_def unat_double)

lemma callback_graph_fields:
  assumes "dict_find iter KEY_BG_TIMESTAMP = Some ts"
  shows "s_graph_ref_timestamp (fst (new_xdrip_data_callback now iter s)) =
           s_graph_ref_timestamp (fst (graph_data (dict_find iter KEY_GRAPH_DATA) s))"
    and "s_graph_count (fst (new_xdrip_data_callback now iter s)) =
           s_graph_count (fst (graph_data (dict_find iter KEY_GRAPH_DATA) s))"
    and "s_graph_offsets (fst (new_xdrip_data_callback now iter s)) =
           s_graph_offsets (fst (graph_data (dict_find iter KEY_GRAPH_DATA) s))"
    and "s_graph_bg_values (fst (new_xdrip_data_callback now iter s)) =
           s_graph_bg_values (fst (graph_data (dict_find iter KEY_GRAPH_DATA) s))"
    and "s_graph_layer (fst (new_xdrip_data_callback now iter s)) =
           s_graph_layer (fst (graph_data (dict_find iter KEY_GRAPH_DATA) s))"
    and "snd (new_xdrip_data_callback now iter s) =
           snd (graph_data (dict_find iter KEY_GRAPH_DATA) s)"
  by (simp_all add: new_xdrip_data_callback_eq [OF assms] display_keeps)

lemma compact_callback_graph_fields:
  assumes "dict_find iter KEY_BG_TIMESTAMP = Some ts"
  shows "s_graph_ref_timestamp (fst (compact_new_xdrip_data_callback now iter s)) =
           s_graph_ref_timestamp (fst (compact_graph_data (dict_find iter compact_KEY_GRAPH_DATA) s))"
    and "s_graph_count (fst (compact_new_xdrip_data_callback now iter s)) =
           s_graph_count (fst (compact_graph_data (dict_find iter compact_KEY_GRAPH_DATA) s))"
    and "s_graph_offsets (fst (compact_new_xdrip_data_callback now iter s)) =
           s_graph_offsets (fst (compact_graph_data (dict_find iter compact_KEY_GRAPH_DATA) s))"
    and "s_graph_bg_values (fst (compact_new_xdrip_data_callback now iter s)) =
           s_graph_bg_values (fst (compact_graph_data (dict_find iter compact_KEY_GRAPH_DATA) s))"
    and "s_graph_layer (fst (compact_new_xdrip_data_callback now iter s)) =
           s_graph_layer (fst (compact_graph_data (dict_find iter compact_KEY_GRAPH_DATA) s))"
    and "snd (compact_new_xdrip_data_callback now iter s) =
           snd (compact_graph_data (dict_find iter compact_KEY_GRAPH_DATA) s)"
  by (simp_all add: compact_new_xdrip_data_callback_eq [OF assms] display_keeps)

lemma graph_decode_main:
  assumes ts: "dict_find iter KEY_BG_TIMESTAMP = Some ts"
    and g: "dict_find iter KEY_GRAPH_DATA = Some g"
    and d: "d = data (t_value g)"
    and n: "n = unat (d ! 4) + 256 * unat (d ! 5)" "n \<le> MAX_GRAPH_POINTS"
    and len: "6 + n * 3 \<le> t_length g"
    and buf: "MAX_GRAPH_POINTS \<le> length (s_graph_offsets s)"
      "MAX_GRAPH_POINTS \<le> length (s_graph_bg_values s)"
    and s': "s' = fst (new_xdrip_data_callback now iter s)"
  shows "unat (s_graph_ref_timestamp s') =
           unat (d ! 0) + 256 * unat (d ! 1) + 65536 * unat (d ! 2) + 16777216 * unat (d ! 3)"
    and "unat (s_graph_count s') = n"
    and "map unat (take n (s_graph_offsets s')) =
           map (\<lambda>i. unat (d ! (6 + 2 * i)) + 256 * unat (d ! (6 + 2 * i + 1))) [0..<n]"
    and "map unat (take n (s_graph_bg_values s')) =
           map (\<lambda>i. 2 * unat (d ! (6 + 2 * n + i))) [0..<n]"
proof -
  have c: "unat (clamped_count d) = n"
    using n by (simp add: unat_clamped_count MAX_GRAPH_POINTS_def)
  have acc: "graph_data (Some g) s =
     (s\<lparr>s_graph_ref_timestamp := ref_timestamp_of d,
        s_graph_count := clamped_count d,
        s_graph_offsets := offsets_of d n @ drop n (s_graph_offsets s),
        s_graph_bg_values := bg_values_of d n @ drop n (s_graph_bg_values s),
        s_graph_layer := map_option (\<lambda>dirty. True) (s_graph_layer s)\<rparr>,
      map PayloadRead [0, 1, 2, 3, 4, 5] @ offset_accesses n @ bg_value_accesses n @
      [OffsetsRead 0, BgValuesRead 0, OffsetsRead (int n - 1), BgValuesRead (int n - 1)])"
  proof (rule graph_data_accepted [OF _ buf d c [symmetric]])
    show "6 + unat (clamped_count (data (t_value g))) * 3 \<le> t_length g"
      using len by (simp only: c [unfolded d])
  qed
  show "unat (s_graph_ref_timestamp s') =
      unat (d ! 0) + 256 * unat (d ! 1) + 65536 * unat (d ! 2) + 16777216 * unat (d ! 3)"
    by (simp add: s' callback_graph_fields [OF ts] g acc unat_ref_timestamp_of)
  show "unat (s_graph_count s') = n"
    by (simp add: s' callback_graph_fields [OF ts] g acc c)
  show "map unat (take n (s_graph_offsets s')) =
      map (\<lambda>i. unat (d ! (6 + 2 * i)) + 256 * unat (d ! (6 + 2 * i + 1))) [0..<n]"
    by (simp add: s' callback_graph_fields [OF ts] g acc unat_offsets_of)
  show "map unat (take n (s_graph_bg_values s')) =
      map (\<lambda>i. 2 * unat (d ! (6 + 2 * n + i))) [0..<n]"
    by (simp add: s' callback_graph_fields [OF ts] g acc unat_bg_values_of)
qed

lemma graph_decode_compact:
  assumes ts: "dict_find iter KEY_BG_TIMESTAMP = Some ts"
    and g: "dict_find iter compact_KEY_GRAPH_DATA = Some g"
    and d: "d = data (t_value g)"
    and n: "n = unat (d ! 4)" "n \<le> compact_MAX_GRAPH_POINTS"
    and len: "5 + n * 2 \<le> t_length g"
    and buf: "compact_MAX_GRAPH_POINTS \<le> length (s_graph_offsets s)"
      "compact_MAX_GRAPH_POINTS \<le> length (s_graph_bg_values s)"
    and s': "s' = fst (compact_new_xdrip_data_callback now iter s)"
  shows "unat (s_graph_ref_timestamp s') =
           unat (d ! 0) + 256 * unat (d ! 1) + 65536 * unat (d ! 2) + 16777216 * unat (d ! 3)"
    and "unat (s_graph_count s') = n"
    and "take n (s_graph_offsets s') = map (\<lambda>i. d ! (5 + i)) [0..<n]"
    and "map unat (take n (s_graph_bg_values s')) = map (\<lambda>i. 2 * unat (d ! (5 + n + i))) [0..<n]"
proof -
  have c: "unat (compact_clamped_count d) = n"
    using n by (simp add: unat_compact_clamped_count compact_MAX_GRAPH_POINTS_def)
  have acc: "compact_graph_data (Some g) s =
     (s\<lparr>s_graph_ref_timestamp := ref_timestamp_of d,
        s_graph_count := compact_clamped_count d,
        s_graph_offsets := compact_offsets_of d n @ drop n (s_graph_offsets s),
        s_graph_bg_values := compact_bg_values_of d n @ drop n (s_graph_bg_values s),
        s_graph_layer := map_option (\<lambda>dirty. True) (s_graph_layer s)\<rparr>,
      map PayloadRead [0, 1, 2, 3, 4] @ compact_offset_accesses n @ compact_bg_value_accesses n)"
  proof (rule compact_graph_data_accepted [OF _ buf d c [symmetric]])
    show "5 + unat (compact_clamped_count (data (t_value g))) * 2 \<le> t_length g"
      using len by (simp only: c [unfolded d])
  qed
  show "unat (s_graph_ref_timestamp s') =
      unat (d ! 0) + 256 * unat (d ! 1) + 65536 * unat (d ! 2) + 16777216 * unat (d ! 3)"
    by (simp add: s' compact_callback_graph_fields [OF ts] g acc unat_ref_timestamp_of)
  show "unat (s_graph_count s') = n"
    by (simp add: s' compact_callback_graph_fields [OF ts] g acc c)
  show "take n (s_graph_offsets s') = map (\<lambda>i. d ! (5 + i)) [0..<n]"
    by (simp add: s' compact_callback_graph_fields [OF ts] g acc compact_offsets_of_def)
  show "map unat (take n (s_graph_bg_values s')) = map (\<lambda>i. 2 * unat (d ! (5 + n + i))) [0..<n]"
    by (simp add: s' compact_callback_graph_fields [OF ts] g acc unat_compact_bg_values_of)
qed

lemma upt_0_2: "[0..<2] = [0, Suc 0]"
  by (simp add: numeral_2_eq_2)

section \<open>The access traces\<close>

lemma offset_accesses_in_bounds:
  "6 + 2 * n \<le> len \<Longrightarrow> n \<le> cap \<Longrightarrow> list_all (in_bounds len cap) (offset_accesses n)"
  by (auto simp add: offset_accesses_def list_all_iff)

lemma bg_value_accesses_in_bounds:
  "6 + 3 * n \<le> len \<Longrightarrow> n \<le> cap \<Longrightarrow> list_all (in_bounds len cap) (bg_value_accesses n)"
  by (auto simp add: bg_value_accesses_def list_all_iff)

lemma compact_offset_accesses_in_bounds:
  "5 + n \<le> len \<Longrightarrow> n \<le> cap \<Longrightarrow> list_all (in_bounds len cap) (compact_offset_accesses n)"
  by (auto simp add: compact_offset_accesses_def list_all_iff)

lemma compact_bg_value_accesses_in_bounds:
  "5 + 2 * n \<le> len \<Longrightarrow> n \<le> cap \<Longrightarrow>
   list_all (in_bounds len cap) (compact_bg_value_accesses n)"
  by (auto simp add: compact_bg_value_accesses_def list_all_iff)

lemma graph_data_trace:
  assumes "MAX_GRAPH_POINTS \<le> length (s_graph_offsets s)"
    and "MAX_GRAPH_POINTS \<le> length (s_graph_bg_values s)"
    and "c = unat (clamped_count (data (t_value t)))"
  shows "snd (graph_data (Some t) s) =
     (if t_length t < 6 then []
      else if t_length t < 6 + c * 3 then map PayloadRead [0, 1, 2, 3, 4, 5]
      else map PayloadRead [0, 1, 2, 3, 4, 5] @ offset_accesses c @ bg_value_accesses c @
        [OffsetsRead 0, BgValuesRead 0, OffsetsRead (int c - 1), BgValuesRead (int c - 1)])"
proof (cases "t_length t < 6")
  case True
  then show ?thesis by (simp add: graph_data_short)
next
  case False
  show ?thesis
  proof (cases "t_length t < 6 + c * 3")
    case True
    with False show ?thesis
      using graph_data_too_short [of t s] by (simp add: assms(3))
  next
    case short: False
    then have "6 + unat (clamped_count (data (t_value t))) * 3 \<le> t_length t"
      by (simp add: assms(3))
    from graph_data_accepted [OF this assms(1,2) refl assms(3)] False short
    show ?thesis by simp
  qed
qed

lemma compact_graph_data_trace:
  assumes "compact_MAX_GRAPH_POINTS \<le> length (s_graph_offsets s)"
    and "compact_MAX_GRAPH_POINTS \<le> length (s_graph_bg_values s)"
    and "c = unat (compact_clamped_count (data (t_value t)))"
  shows "snd (compact_graph_data (Some t) s) =
     (if t_length t < 5 then []
      else if t_length t < 5 + c * 2 then map PayloadRead [0, 1, 2, 3, 4]
      else map PayloadRead [0, 1, 2, 3, 4] @ compact_offset_accesses c @
        compact_bg_value_accesses c)"
proof (cases "t_length t < 5")
  case True
  then show ?thesis by (simp add: compact_graph_data_short)
next
  case False
  show ?thesis
  proof (cases "t_length t < 5 + c * 2")
    case True
    with False show ?thesis
      using compact_graph_data_too_short [of t s] by (simp add: assms(3))
  next
    case short: False
    then have "5 + unat (compact_clamped_count (data (t_value t))) * 2 \<le> t_length t"
      by (simp add: assms(3))
    from compact_graph_data_accepted [OF this assms(1,2) refl assms(3)] False short
    show ?thesis by simp
  qed
qed

lemma graph_data_in_bounds:
  assumes "MAX_GRAPH_POINTS \<le> length (s_graph_offsets s)"
    and "MAX_GRAPH_POINTS \<le> length (s_graph_bg_values s)"
  shows "list_all (in_bounds (t_length t) MAX_GRAPH_POINTS) (snd (graph_data (Some t) s)) \<longleftrightarrow>
     \<not> (6 \<le> t_length t \<and> clamped_count (data (t_value t)) = 0)"
proof -
  define c where "c = unat (clamped_count (data (t_value t)))"
  have c: "c \<le> MAX_GRAPH_POINTS"
    by (simp add: c_def unat_clamped_count MAX_GRAPH_POINTS_def)
  have z: "clamped_count (data (t_value t)) = 0 \<longleftrightarrow> c = 0"
    by (simp add: c_def unat_eq_0)
  have hdr: "6 \<le> t_length t \<Longrightarrow>
      list_all (in_bounds (t_length t) MAX_GRAPH_POINTS) (map PayloadRead [0, 1, 2, 3, 4, 5])"
    by simp
  have body: "6 + c * 3 \<le> t_length t \<Longrightarrow>
      list_all (in_bounds (t_length t) MAX_GRAPH_POINTS) (offset_accesses c) \<and>
      list_all (in_bounds (t_length t) MAX_GRAPH_POINTS) (bg_value_accesses c)"
    using c by (simp add: offset_accesses_in_bounds bg_value_accesses_in_bounds)
  show ?thesis
    unfolding graph_data_trace [OF assms c_def] z
    using hdr body c by (auto simp add: MAX_GRAPH_POINTS_def)
qed

lemma compact_graph_data_in_bounds:
  assumes "compact_MAX_GRAPH_POINTS \<le> length (s_graph_offsets s)"
    and "compact_MAX_GRAPH_POINTS \<le> length (s_graph_bg_values s)"
  shows "list_all (in_bounds (t_length t) compact_MAX_GRAPH_POINTS)
     (snd (compact_graph_data (Some t) s))"
proof -
  define c where "c = unat (compact_clamped_count (data (t_value t)))"
  have c: "c \<le> compact_MAX_GRAPH_POINTS"
    by (simp add: c_def unat_compact_clamped_count compact_MAX_GRAPH_POINTS_def)
  have hdr: "5 \<le> t_length t \<Longrightarrow>
      list_all (in_bounds (t_length t) compact_MAX_GRAPH_POINTS) (map PayloadRead [0, 1, 2, 3, 4])"
    by simp
  have body: "5 + c * 2 \<le> t_length t \<Longrightarrow>
      list_all (in_bounds (t_length t) compact_MAX_GRAPH_POINTS) (compact_offset_accesses c) \<and>
      list_all (in_bounds (t_length t) compact_MAX_GRAPH_POINTS) (compact_bg_value_accesses c)"
    using c by (simp add: compact_offset_accesses_in_bounds compact_bg_value_accesses_in_bounds)
  show ?thesis
    unfolding compact_graph_data_trace [OF assms c_def]
    using hdr body by auto
qed

lemma oversized_main:
  assumes ts: "dict_find iter KEY_BG_TIMESTAMP = Some ts"
    and g: "dict_find iter KEY_GRAPH_DATA = Some g"
    and d: "d = data (t_value g)"
    and hdr: "6 \<le> t_length g"
    and big: "MAX_GRAPH_POINTS < unat (d ! 4) + 256 * unat (d ! 5)"
    and buf: "MAX_GRAPH_POINTS \<le> length (s_graph_offsets s)"
      "MAX_GRAPH_POINTS \<le> length (s_graph_bg_values s)"
    and r: "r = new_xdrip_data_callback now iter s"
  shows "unat (s_graph_count (fst r)) = MAX_GRAPH_POINTS"
    and "list_all (in_bounds (t_length g) MAX_GRAPH_POINTS) (snd r)"
    and "if 6 + MAX_GRAPH_POINTS * 3 \<le> t_length g
         then map unat (take MAX_GRAPH_POINTS (s_graph_offsets (fst r))) =
                map (\<lambda>i. unat (d ! (6 + 2 * i)) + 256 * unat (d ! (6 + 2 * i + 1)))
                  [0..<MAX_GRAPH_POINTS] \<and>
              map unat (take MAX_GRAPH_POINTS (s_graph_bg_values (fst r))) =
                map (\<lambda>i. 2 * unat (d ! (6 + 2 * MAX_GRAPH_POINTS + i))) [0..<MAX_GRAPH_POINTS]
         else s_graph_offsets (fst r) = s_graph_offsets s \<and>
              s_graph_bg_values (fst r) = s_graph_bg_values s"
proof -
  have c: "unat (clamped_count d) = MAX_GRAPH_POINTS"
    using big by (simp add: unat_clamped_count MAX_GRAPH_POINTS_def)
  then have nz: "clamped_count (data (t_value g)) \<noteq> 0"
    by (auto simp add: d MAX_GRAPH_POINTS_def)
  show "list_all (in_bounds (t_length g) MAX_GRAPH_POINTS) (snd r)"
    using graph_data_in_bounds [OF buf, of g] nz
    by (simp add: r callback_graph_fields [OF ts] g)
  show "unat (s_graph_count (fst r)) = MAX_GRAPH_POINTS"
  proof (cases "6 + MAX_GRAPH_POINTS * 3 \<le> t_length g")
    case True
    then have "6 + unat (clamped_count (data (t_value g))) * 3 \<le> t_length g"
      by (simp only: c [unfolded d])
    from graph_data_accepted [OF this buf d c [symmetric]] show ?thesis
      by (simp add: r callback_graph_fields [OF ts] g c)
  next
    case False
    then have "t_length g < 6 + unat (clamped_count (data (t_value g))) * 3"
      by (simp only: c [unfolded d] not_le)
    from graph_data_too_short [OF hdr this] show ?thesis
      by (simp add: r callback_graph_fields [OF ts] g c [unfolded d])
  qed
  show "if 6 + MAX_GRAPH_POINTS * 3 \<le> t_length g
         then map unat (take MAX_GRAPH_POINTS (s_graph_offsets (fst r))) =
                map (\<lambda>i. unat (d ! (6 + 2 * i)) + 256 * unat (d ! (6 + 2 * i + 1)))
                  [0..<MAX_GRAPH_POINTS] \<and>
              map unat (take MAX_GRAPH_POINTS (s_graph_bg_values (fst r))) =
                map (\<lambda>i. 2 * unat (d ! (6 + 2 * MAX_GRAPH_POINTS + i))) [0..<MAX_GRAPH_POINTS]
         else s_graph_offsets (fst r) = s_graph_offsets s \<and>
              s_graph_bg_values (fst r) = s_graph_bg_values s"
  proof (cases "6 + MAX_GRAPH_POINTS * 3 \<le> t_length g")
    case True
    then have "6 + unat (clamped_count (data (t_value g))) * 3 \<le> t_length g"
      by (simp only: c [unfolded d])
    from graph_data_accepted [OF this buf d c [symmetric]] True show ?thesis
      by (simp add: r callback_graph_fields [OF ts] g unat_offsets_of unat_bg_values_of)
  next
    case False
    then have "t_length g < 6 + unat (clamped_count (data (t_value g))) * 3"
      by (simp only: c [unfolded d] not_le)
    from graph_data_too_short [OF hdr this] False show ?thesis
      by (simp add: r callback_graph_fields [OF ts] g)
  qed
qed

lemma oversized_compact:
  assumes ts: "dict_find iter KEY_BG_TIMESTAMP = Some ts"
    and g: "dict_find iter compact_KEY_GRAPH_DATA = Some g"
    and d: "d = data (t_value g)"
    and hdr: "5 \<le> t_length g"
    and big: "compact_MAX_GRAPH_POINTS < unat (d ! 4)"
    and buf: "compact_MAX_GRAPH_POINTS \<le> length (s_graph_offsets s)"
      "compact_MAX_GRAPH_POINTS \<le> length (s_graph_bg_values s)"
    and r: "r = compact_new_xdrip_data_callback now iter s"
  shows "unat (s_graph_count (fst r)) = compact_MAX_GRAPH_POINTS"
    and "list_all (in_bounds (t_length g) compact_MAX_GRAPH_POINTS) (snd r)"
    and "if 5 + compact_MAX_GRAPH_POINTS * 2 \<le> t_length g
         then take compact_MAX_GRAPH_POINTS (s_graph_offsets (fst r)) =
                map (\<lambda>i. d ! (5 + i)) [0..<compact_MAX_GRAPH_POINTS] \<and>
              map unat (take compact_MAX_GRAPH_POINTS (s_graph_bg_values (fst r))) =
                map (\<lambda>i. 2 * unat (d ! (5 + compact_MAX_GRAPH_POINTS + i)))
                  [0..<compact_MAX_GRAPH_POINTS]
         else s_graph_offsets (fst r) = s_graph_offsets s \<and>
              s_graph_bg_values (fst r) = s_graph_bg_values s"
proof -
  have c: "unat (compact_clamped_count d) = compact_MAX_GRAPH_POINTS"
    using big by (simp add: unat_compact_clamped_count compact_MAX_GRAPH_POINTS_def)
  show "list_all (in_bounds (t_length g) compact_MAX_GRAPH_POINTS) (snd r)"
    using compact_graph_data_in_bounds [OF buf, of g]
    by (simp add: r compact_callback_graph_fields [OF ts] g)
  show "unat (s_graph_count (fst r)) = compact_MAX_GRAPH_POINTS"
  proof (cases "5 + compact_MAX_GRAPH_POINTS * 2 \<le> t_length g")
    case True
    then have "5 + unat (compact_clamped_count (data (t_value g))) * 2 \<le> t_length g"
      by (simp only: c [unfolded d])
    from compact_graph_data_accepted [OF this buf d c [symmetric]] show ?thesis
      by (simp add: r compact_callback_graph_fields [OF ts] g c)
  next
    case False
    then have "t_length g < 5 + unat (compact_clamped_count (data (t_value g))) * 2"
      by (simp only: c [unfolded d] not_le)
    from compact_graph_data_too_short [OF hdr this] show ?thesis
      by (simp add: r compact_callback_graph_fields [OF ts] g c [unfolded d])
  qed
  show "if 5 + compact_MAX_GRAPH_POINTS * 2 \<le> t_length g
         then take compact_MAX_GRAPH_POINTS (s_graph_offsets (fst r)) =
                map (\<lambda>i. d ! (5 + i)) [0..<compact_MAX_GRAPH_POINTS] \<and>
              map unat (take compact_MAX_GRAPH_POINTS (s_graph_bg_values (fst r))) =
                map (\<lambda>i. 2 * unat (d ! (5 + compact_MAX_GRAPH_POINTS + i)))
                  [0..<compact_MAX_GRAPH_POINTS]
         else s_graph_offsets (fst r) = s_graph_offsets s \<and>
              s_graph_bg_values (fst r) = s_graph_bg_values s"
  proof (cases "5 + compact_MAX_GRAPH_POINTS * 2 \<le> t_length g")
    case True
    then have "5 + unat (compact_clamped_count (data (t_value g))) * 2 \<le> t_length g"
      by (simp only: c [unfolded d])
    from compact_graph_data_accepted [OF this buf d c [symmetric]] True show ?thesis
      by (simp add: r compact_callback_graph_fields [OF ts] g compact_offsets_of_def
          unat_compact_bg_values_of)
  next
    case False
    then have "t_length g < 5 + unat (compact_clamped_count (data (t_value g))) * 2"
      by (simp only: c [unfolded d] not_le)
    from compact_graph_data_too_short [OF hdr this] False show ?thesis
      by (simp add: r compact_callback_graph_fields [OF ts] g)
  qed
qed

section \<open>The concrete messages\<close>

lemma initial_watch_buffers:
  "n \<le> length (s_graph_offsets (initial_watch n :: ('a::len word, 'b::len word) watch))"
  "n \<le> length (s_graph_bg_values (initial_watch n :: ('a::len word, 'b::len word) watch))"
  by (simp_all add: initial_watch_def)

lemma zero_count_message_lookup:
  "dict_find zero_count_message KEY_BG_TIMESTAMP = Some (uint_tuple 4 1000)"
  "dict_find zero_count_message KEY_GRAPH_DATA = Some (data_tuple [0, 0, 0, 0, 0, 0])"
  by (simp_all add: zero_count_message_def dict_find_def keys)

lemma truncated_message_lookup:
  "dict_find truncated_message KEY_BG_TIMESTAMP = Some (uint_tuple 4 1000)"
  "dict_find truncated_message KEY_GRAPH_DATA =
     Some ((data_tuple [0xE8, 3, 0, 0, 2, 0, 0, 0, 5, 0, 50, 60])\<lparr>t_length := 6\<rparr>)"
  "dict_find truncated_message compact_KEY_GRAPH_DATA =
     Some ((data_tuple [0xE8, 3, 0, 0, 2, 0, 5, 50, 60])\<lparr>t_length := 5\<rparr>)"
  by (simp_all add: truncated_message_def dict_find_def keys)

lemma clamped_count_zero:
  "clamped_count d = 0 \<longleftrightarrow> d ! 4 = 0 \<and> d ! 5 = 0"
proof -
  have "clamped_count d = 0 \<longleftrightarrow> unat (clamped_count d) = 0"
    by (simp add: unat_eq_0)
  also have "\<dots> \<longleftrightarrow> unat (d ! 4) = 0 \<and> unat (d ! 5) = 0"
    by (auto simp add: unat_clamped_count min_def)
  finally show ?thesis by (simp add: unat_eq_0)
qed

section \<open>A message with timestamp 0\<close>

lemma zero_timestamp_message_lookup:
  "dict_find zero_timestamp_message KEY_BG_TIMESTAMP = Some (uint_tuple 4 0)"
  "dict_find zero_timestamp_message KEY_BG_STRING = Some (cstring_tuple ''5.4'')"
  "dict_find zero_timestamp_message KEY_DELTA_STRING = None"
  "dict_find zero_timestamp_message KEY_ARROW_INDEX = Some (uint_tuple 1 4)"
  "dict_find zero_timestamp_message KEY_GRAPH_DATA =
     Some (data_tuple [0xE8, 3, 0, 0, 2, 0, 0, 0, 5, 0, 50, 60])"
  "dict_find zero_timestamp_message compact_KEY_GRAPH_DATA =
     Some (data_tuple [0xE8, 3, 0, 0, 2, 0, 5, 50, 60])"
  by (simp_all add: zero_timestamp_message_def dict_find_def keys)

lemma stale_watch_fields:
  "s_bg_timestamp (stale_watch cap) = 900"
  "s_bg_string (stale_watch cap) = ''10.2'' @ [NUL]"
  "s_delta_string (stale_watch cap) = replicate 6 NUL"
  "s_arrow_index (stale_watch cap) = 0"
  "s_time_ago_buffer (stale_watch cap) = ''5m'' @ [NUL, NUL]"
  "length (s_graph_offsets (stale_watch cap)) = cap"
  "length (s_graph_bg_values (stale_watch cap)) = cap"
  by (simp_all add: stale_watch_def initial_watch_def)

lemma safe_strncpy_stale:
  "safe_strncpy [CHR ''1'', CHR ''0'', CHR ''.'', CHR ''2'', NUL] [CHR ''5'', CHR ''.'', CHR ''4'', NUL] 5 =
     [CHR ''5'', CHR ''.'', CHR ''4'', NUL, NUL]"
  by code_simp

lemma c_str_safe_strncpy:
  assumes "0 < c" and "c \<le> length dest"
  shows "c_str (safe_strncpy dest src c) = take (c - 1) (c_str src)"
proof -
  define n where "n = min (length (c_str src)) (c - 1)"
  define pre where "pre = take (c - 1) (c_str src)"
  have r: "safe_strncpy dest src c = pre @ replicate (c - n) NUL @ drop c dest"
    using safe_strncpy_eq [OF assms] by (simp add: pre_def n_def)
  have "n < c"
    using assms(1) by (simp add: n_def)
  then obtain k where k: "c - n = Suc k"
    by (cases "c - n") auto
  have "NUL \<notin> set pre"
    using c_str_no_NUL [of src] by (auto simp add: pre_def dest: in_set_takeD)
  from c_str_append_NUL [OF this] show ?thesis
    by (simp add: r k pre_def)
qed

lemma update_displayed_time_ago_buffer:
  "s_time_ago_buffer (update_displayed_time_ago now s) =
     (if s_bg_timestamp s = 0 then s_time_ago_buffer s
      else let minutes_ago = unat ((now - s_bg_timestamp s) div 60)
           in snprintf (s_time_ago_buffer s) 4
                (if minutes_ago < 60 then dec minutes_ago @ ''m''
                 else dec (minutes_ago div 60) @ ''h''))"
  by (simp add: update_displayed_time_ago_def Let_def)

lemma time_ago_example:
  "snprintf [CHR ''5'', CHR ''m'', NUL, NUL] 4 (dec (unat ((1100 - 1000 :: 32 word) div 60)) @ ''m'') =
     [CHR ''1'', CHR ''m'', NUL, NUL]"
  "unat ((1100 - 1000 :: 32 word) div 60) < 60"
  by code_simp+

lemma later_timestamp_time_ago:
  "s_time_ago_buffer (fst (new_xdrip_data_callback 1100
      (zero_timestamp_message(KEY_BG_TIMESTAMP \<mapsto> uint_tuple 4 1000))
      (stale_watch MAX_GRAPH_POINTS))) = ''1m'' @ [NUL, NUL]"
  "s_time_ago_buffer (fst (compact_new_xdrip_data_callback 1100
      (zero_timestamp_message(KEY_BG_TIMESTAMP \<mapsto> uint_tuple 4 1000))
      (stale_watch compact_MAX_GRAPH_POINTS))) = ''1m'' @ [NUL, NUL]"
  using time_ago_example
  by (simp_all add: new_xdrip_data_callback_eq [OF dict_find_timestamp]
      compact_new_xdrip_data_callback_eq [OF dict_find_timestamp]
      update_displayed_time_ago_buffer display_keeps graph_data_keeps compact_graph_data_keeps
      stale_watch_fields uint_tuple_def Let_def del: dec.simps)

section \<open>The claims\<close>

text \<open>
  Claim C1, at a payload of six zero bytes in a data message. \<open>main.c\<close> accepts it
  (the length covers the header and no points), runs both loops zero times and then logs
  the first and the last point: the last point is read at index \<open>s_graph_count - 1\<close>,
  which is -1 here, so \<open>s_graph_offsets\<close> and \<open>s_graph_bg_values\<close> are read in front of
  their first element. The access trace is the one below and it is not in bounds.
\<close>

theorem zero_count_reads_before_buffers:
  "snd (new_xdrip_data_callback 1100 zero_count_message (initial_watch MAX_GRAPH_POINTS)) =
     [PayloadRead 0, PayloadRead 1, PayloadRead 2, PayloadRead 3, PayloadRead 4, PayloadRead 5,
      OffsetsRead 0, BgValuesRead 0, OffsetsRead (- 1), BgValuesRead (- 1)] \<and>
   \<not> list_all (in_bounds 6 MAX_GRAPH_POINTS)
     (snd (new_xdrip_data_callback 1100 zero_count_message (initial_watch MAX_GRAPH_POINTS)))"
proof -
  have c: "unat (clamped_count (data (t_value (data_tuple [0, 0, 0, 0, 0, 0])))) = 0"
    by (simp add: unat_clamped_count data_tuple_def)
  have "snd (new_xdrip_data_callback 1100 zero_count_message (initial_watch MAX_GRAPH_POINTS)) =
      snd (graph_data (Some (data_tuple [0, 0, 0, 0, 0, 0])) (initial_watch MAX_GRAPH_POINTS))"
    by (simp add: callback_graph_fields [OF zero_count_message_lookup(1)] zero_count_message_lookup)
  also have "\<dots> =
      [PayloadRead 0, PayloadRead 1, PayloadRead 2, PayloadRead 3, PayloadRead 4, PayloadRead 5,
       OffsetsRead 0, BgValuesRead 0, OffsetsRead (- 1), BgValuesRead (- 1)]"
    unfolding graph_data_trace [OF initial_watch_buffers c [symmetric]]
    by (simp add: data_tuple_def offset_accesses_def bg_value_accesses_def)
  finally show ?thesis by simp
qed

text \<open>
  Claim C2, at the spec's second scenario: the 60-point payload for reference timestamp
  1000 and two points, delivered with length 5, on the initial state. The length covers
  the header, so the callback parses the reference timestamp and the count into the
  variables before it finds the payload too short: the arrays keep their contents, but the
  reference timestamp is now 1000 and the count 2. \<open>main.c\<close> does the same with its
  6-byte header.
\<close>

theorem truncated_payload_overwrites_header:
  "(let c' = fst (compact_new_xdrip_data_callback 1100 truncated_message
        (initial_watch compact_MAX_GRAPH_POINTS))
    in unat (s_graph_ref_timestamp c') = 1000 \<and> unat (s_graph_count c') = 2 \<and>
       s_graph_offsets c' = replicate compact_MAX_GRAPH_POINTS 0 \<and>
       s_graph_bg_values c' = replicate compact_MAX_GRAPH_POINTS 0) \<and>
   (let s' = fst (new_xdrip_data_callback 1100 truncated_message (initial_watch MAX_GRAPH_POINTS))
    in unat (s_graph_ref_timestamp s') = 1000 \<and> unat (s_graph_count s') = 2 \<and>
       s_graph_offsets s' = replicate MAX_GRAPH_POINTS 0 \<and>
       s_graph_bg_values s' = replicate MAX_GRAPH_POINTS 0) \<and>
   unat (s_graph_ref_timestamp (initial_watch compact_MAX_GRAPH_POINTS :: watch60)) = 0 \<and>
   unat (s_graph_count (initial_watch compact_MAX_GRAPH_POINTS :: watch60)) = 0 \<and>
   unat (s_graph_ref_timestamp (initial_watch MAX_GRAPH_POINTS :: watch300)) = 0 \<and>
   unat (s_graph_count (initial_watch MAX_GRAPH_POINTS :: watch300)) = 0"
proof -
  let ?h = "(data_tuple [0xE8, 3, 0, 0, 2, 0, 5, 50, 60])\<lparr>t_length := 5\<rparr>"
  let ?g = "(data_tuple [0xE8, 3, 0, 0, 2, 0, 0, 0, 5, 0, 50, 60])\<lparr>t_length := 6\<rparr>"
  have ch: "unat (compact_clamped_count (data (t_value ?h))) = 2"
    and cg: "unat (clamped_count (data (t_value ?g))) = 2"
    by (simp_all add: unat_compact_clamped_count unat_clamped_count data_tuple_def)
  have rh: "unat (ref_timestamp_of (data (t_value ?h))) = 1000"
    and rg: "unat (ref_timestamp_of (data (t_value ?g))) = 1000"
    by (simp_all add: unat_ref_timestamp_of data_tuple_def)
  have h: "compact_graph_data (Some ?h) (initial_watch compact_MAX_GRAPH_POINTS) =
      ((initial_watch compact_MAX_GRAPH_POINTS)
         \<lparr>s_graph_ref_timestamp := ref_timestamp_of (data (t_value ?h)),
          s_graph_count := compact_clamped_count (data (t_value ?h))\<rparr>,
       map PayloadRead [0, 1, 2, 3, 4])"
    by (rule compact_graph_data_too_short) (simp_all only: ch, simp_all add: data_tuple_def)
  have g: "graph_data (Some ?g) (initial_watch MAX_GRAPH_POINTS) =
      ((initial_watch MAX_GRAPH_POINTS)
         \<lparr>s_graph_ref_timestamp := ref_timestamp_of (data (t_value ?g)),
          s_graph_count := clamped_count (data (t_value ?g))\<rparr>,
       map PayloadRead [0, 1, 2, 3, 4, 5])"
    by (rule graph_data_too_short) (simp_all only: cg, simp_all add: data_tuple_def)
  show ?thesis
    unfolding Let_def
    by (simp add: callback_graph_fields [OF truncated_message_lookup(1)]
        compact_callback_graph_fields [OF truncated_message_lookup(1)]
        truncated_message_lookup h g)
      (simp add: initial_watch_def data_tuple_def unat_ref_timestamp_of
        unat_compact_clamped_count unat_clamped_count)
qed

text \<open>
  Claim C3. A data message carries a graph payload \<open>d\<close> whose declared count \<open>n\<close> is
  within the capacity and whose length covers the header, \<open>n\<close> offsets and \<open>n\<close> values.
  Then the callback leaves, as numbers: the reference timestamp equal to the little-endian
  value of bytes 0 to 3, the count equal to \<open>n\<close>, the first \<open>n\<close> offsets equal to the
  entries of the offset array (two bytes each, little-endian, after the 6-byte header in
  \<open>main.c\<close>; one byte each after the 5-byte header in the 60-point revision), and the
  first \<open>n\<close> values equal to twice the value bytes that follow the offsets. The buffers
  are taken to have their declared sizes.
\<close>

theorem graph_payload_decoded:
  "(dict_find iter KEY_BG_TIMESTAMP = Some ts \<and> dict_find iter KEY_GRAPH_DATA = Some g \<and>
    d = data (t_value g) \<and> n = unat (d ! 4) + 256 * unat (d ! 5) \<and> n \<le> MAX_GRAPH_POINTS \<and>
    6 + n * 3 \<le> t_length g \<and>
    MAX_GRAPH_POINTS \<le> length (s_graph_offsets s) \<and>
    MAX_GRAPH_POINTS \<le> length (s_graph_bg_values s) \<and>
    s' = fst (new_xdrip_data_callback now iter s) \<longrightarrow>
      unat (s_graph_ref_timestamp s') =
        unat (d ! 0) + 256 * unat (d ! 1) + 65536 * unat (d ! 2) + 16777216 * unat (d ! 3) \<and>
      unat (s_graph_count s') = n \<and>
      map unat (take n (s_graph_offsets s')) =
        map (\<lambda>i. unat (d ! (6 + 2 * i)) + 256 * unat (d ! (6 + 2 * i + 1))) [0..<n] \<and>
      map unat (take n (s_graph_bg_values s')) =
        map (\<lambda>i. 2 * unat (d ! (6 + 2 * n + i))) [0..<n]) \<and>
   (dict_find iter KEY_BG_TIMESTAMP = Some ts \<and> dict_find iter compact_KEY_GRAPH_DATA = Some h \<and>
    e = data (t_value h) \<and> m = unat (e ! 4) \<and> m \<le> compact_MAX_GRAPH_POINTS \<and>
    5 + m * 2 \<le> t_length h \<and>
    compact_MAX_GRAPH_POINTS \<le> length (s_graph_offsets c) \<and>
    compact_MAX_GRAPH_POINTS \<le> length (s_graph_bg_values c) \<and>
    c' = fst (compact_new_xdrip_data_callback now iter c) \<longrightarrow>
      unat (s_graph_ref_timestamp c') =
        unat (e ! 0) + 256 * unat (e ! 1) + 65536 * unat (e ! 2) + 16777216 * unat (e ! 3) \<and>
      unat (s_graph_count c') = m \<and>
      take m (s_graph_offsets c') = map (\<lambda>i. e ! (5 + i)) [0..<m] \<and>
      map unat (take m (s_graph_bg_values c')) = map (\<lambda>i. 2 * unat (e ! (5 + m + i))) [0..<m])"
proof (intro conjI impI; elim conjE)
  assume "dict_find iter KEY_BG_TIMESTAMP = Some ts" "dict_find iter KEY_GRAPH_DATA = Some g"
    "d = data (t_value g)" "n = unat (d ! 4) + 256 * unat (d ! 5)" "n \<le> MAX_GRAPH_POINTS"
    "6 + n * 3 \<le> t_length g" "MAX_GRAPH_POINTS \<le> length (s_graph_offsets s)"
    "MAX_GRAPH_POINTS \<le> length (s_graph_bg_values s)"
    "s' = fst (new_xdrip_data_callback now iter s)"
  note h = this
  show "unat (s_graph_ref_timestamp s') =
      unat (d ! 0) + 256 * unat (d ! 1) + 65536 * unat (d ! 2) + 16777216 * unat (d ! 3)"
    by (rule graph_decode_main(1) [OF h])
  show "unat (s_graph_count s') = n"
    by (rule graph_decode_main(2) [OF h])
  show "map unat (take n (s_graph_offsets s')) =
      map (\<lambda>i. unat (d ! (6 + 2 * i)) + 256 * unat (d ! (6 + 2 * i + 1))) [0..<n]"
    by (rule graph_decode_main(3) [OF h])
  show "map unat (take n (s_graph_bg_values s')) =
      map (\<lambda>i. 2 * unat (d ! (6 + 2 * n + i))) [0..<n]"
    by (rule graph_decode_main(4) [OF h])
next
  assume "dict_find iter KEY_BG_TIMESTAMP = Some ts" "dict_find iter compact_KEY_GRAPH_DATA = Some h"
    "e = data (t_value h)" "m = unat (e ! 4)" "m \<le> compact_MAX_GRAPH_POINTS"
    "5 + m * 2 \<le> t_length h" "compact_MAX_GRAPH_POINTS \<le> length (s_graph_offsets c)"
    "compact_MAX_GRAPH_POINTS \<le> length (s_graph_bg_values c)"
    "c' = fst (compact_new_xdrip_data_callback now iter c)"
  note h = this
  show "unat (s_graph_ref_timestamp c') =
      unat (e ! 0) + 256 * unat (e ! 1) + 65536 * unat (e ! 2) + 16777216 * unat (e ! 3)"
    by (rule graph_decode_compact(1) [OF h])
  show "unat (s_graph_count c') = m"
    by (rule graph_decode_compact(2) [OF h])
  show "take m (s_graph_offsets c') = map (\<lambda>i. e ! (5 + i)) [0..<m]"
    by (rule graph_decode_compact(3) [OF h])
  show "map unat (take m (s_graph_bg_values c')) = map (\<lambda>i. 2 * unat (e ! (5 + m + i))) [0..<m]"
    by (rule graph_decode_compact(4) [OF h])
qed

theorem graph_payload_decoded_witness:
  "dict_find example_message KEY_BG_TIMESTAMP = Some (uint_tuple 4 1000) \<and>
   dict_find example_message KEY_GRAPH_DATA =
     Some (data_tuple [0xE8, 3, 0, 0, 2, 0, 0, 0, 5, 0, 50, 60]) \<and>
   dict_find example_message compact_KEY_GRAPH_DATA =
     Some (data_tuple [0xE8, 3, 0, 0, 2, 0, 5, 50, 60]) \<and>
   6 + 2 * 3 \<le> t_length (data_tuple [0xE8, 3, 0, 0, 2, 0, 0, 0, 5, 0, 50, 60]) \<and>
   5 + 2 * 2 \<le> t_length (data_tuple [0xE8, 3, 0, 0, 2, 0, 5, 50, 60]) \<and>
   unat (s_graph_ref_timestamp
     (fst (new_xdrip_data_callback 1100 example_message (initial_watch MAX_GRAPH_POINTS)))) = 1000 \<and>
   unat (s_graph_count
     (fst (new_xdrip_data_callback 1100 example_message (initial_watch MAX_GRAPH_POINTS)))) = 2 \<and>
   map unat (take 2 (s_graph_offsets
     (fst (new_xdrip_data_callback 1100 example_message (initial_watch MAX_GRAPH_POINTS))))) = [0, 5] \<and>
   map unat (take 2 (s_graph_bg_values
     (fst (new_xdrip_data_callback 1100 example_message (initial_watch MAX_GRAPH_POINTS))))) = [100, 120] \<and>
   unat (s_graph_ref_timestamp
     (fst (compact_new_xdrip_data_callback 1100 example_message
        (initial_watch compact_MAX_GRAPH_POINTS)))) = 1000 \<and>
   unat (s_graph_count
     (fst (compact_new_xdrip_data_callback 1100 example_message
        (initial_watch compact_MAX_GRAPH_POINTS)))) = 2 \<and>
   take 2 (s_graph_offsets
     (fst (compact_new_xdrip_data_callback 1100 example_message
        (initial_watch compact_MAX_GRAPH_POINTS)))) = [0, 5] \<and>
   map unat (take 2 (s_graph_bg_values
     (fst (compact_new_xdrip_data_callback 1100 example_message
        (initial_watch compact_MAX_GRAPH_POINTS))))) = [100, 120]"
  using graph_payload_decoded [of example_message "uint_tuple 4 1000"
      "data_tuple [0xE8, 3, 0, 0, 2, 0, 0, 0, 5, 0, 50, 60]"
      "[0xE8, 3, 0, 0, 2, 0, 0, 0, 5, 0, 50, 60]" 2 "initial_watch MAX_GRAPH_POINTS"
      "fst (new_xdrip_data_callback 1100 example_message (initial_watch MAX_GRAPH_POINTS))" 1100
      "data_tuple [0xE8, 3, 0, 0, 2, 0, 5, 50, 60]" "[0xE8, 3, 0, 0, 2, 0, 5, 50, 60]" 2
      "initial_watch compact_MAX_GRAPH_POINTS"
      "fst (compact_new_xdrip_data_callback 1100 example_message
         (initial_watch compact_MAX_GRAPH_POINTS))"]
  by (auto simp add: example_message_def dict_find_def keys data_tuple_def initial_watch_def
      MAX_GRAPH_POINTS_def compact_MAX_GRAPH_POINTS_def upt_0_2)

text \<open>
  Claim C4. A data message carries a graph payload with the header present and a declared
  count above the capacity (300 in \<open>main.c\<close>, 60 in the 60-point revision). Then the
  stored count is the capacity; every subscript evaluated is in bounds, for the payload
  against its length and for the two buffers against the capacity; and the message is
  decoded whenever its length covers the header and capacity-many offsets and values,
  with the value bytes read after capacity-many offsets. Only a payload too short for
  the clamped count leaves the two arrays as they were.
\<close>

theorem oversized_count_clamped:
  "(dict_find iter KEY_BG_TIMESTAMP = Some ts \<and> dict_find iter KEY_GRAPH_DATA = Some g \<and>
    d = data (t_value g) \<and> 6 \<le> t_length g \<and>
    MAX_GRAPH_POINTS < unat (d ! 4) + 256 * unat (d ! 5) \<and>
    MAX_GRAPH_POINTS \<le> length (s_graph_offsets s) \<and>
    MAX_GRAPH_POINTS \<le> length (s_graph_bg_values s) \<and>
    r = new_xdrip_data_callback now iter s \<longrightarrow>
      unat (s_graph_count (fst r)) = MAX_GRAPH_POINTS \<and>
      list_all (in_bounds (t_length g) MAX_GRAPH_POINTS) (snd r) \<and>
      (if 6 + MAX_GRAPH_POINTS * 3 \<le> t_length g
       then map unat (take MAX_GRAPH_POINTS (s_graph_offsets (fst r))) =
              map (\<lambda>i. unat (d ! (6 + 2 * i)) + 256 * unat (d ! (6 + 2 * i + 1)))
                [0..<MAX_GRAPH_POINTS] \<and>
            map unat (take MAX_GRAPH_POINTS (s_graph_bg_values (fst r))) =
              map (\<lambda>i. 2 * unat (d ! (6 + 2 * MAX_GRAPH_POINTS + i))) [0..<MAX_GRAPH_POINTS]
       else s_graph_offsets (fst r) = s_graph_offsets s \<and>
            s_graph_bg_values (fst r) = s_graph_bg_values s)) \<and>
   (dict_find iter KEY_BG_TIMESTAMP = Some ts \<and> dict_find iter compact_KEY_GRAPH_DATA = Some h \<and>
    e = data (t_value h) \<and> 5 \<le> t_length h \<and>
    compact_MAX_GRAPH_POINTS < unat (e ! 4) \<and>
    compact_MAX_GRAPH_POINTS \<le> length (s_graph_offsets c) \<and>
    compact_MAX_GRAPH_POINTS \<le> length (s_graph_bg_values c) \<and>
    q = compact_new_xdrip_data_callback now iter c \<longrightarrow>
      unat (s_graph_count (fst q)) = compact_MAX_GRAPH_POINTS \<and>
      list_all (in_bounds (t_length h) compact_MAX_GRAPH_POINTS) (snd q) \<and>
      (if 5 + compact_MAX_GRAPH_POINTS * 2 \<le> t_length h
       then take compact_MAX_GRAPH_POINTS (s_graph_offsets (fst q)) =
              map (\<lambda>i. e ! (5 + i)) [0..<compact_MAX_GRAPH_POINTS] \<and>
            map unat (take compact_MAX_GRAPH_POINTS (s_graph_bg_values (fst q))) =
              map (\<lambda>i. 2 * unat (e ! (5 + compact_MAX_GRAPH_POINTS + i)))
                [0..<compact_MAX_GRAPH_POINTS]
       else s_graph_offsets (fst q) = s_graph_offsets c \<and>
            s_graph_bg_values (fst q) = s_graph_bg_values c))"
proof (intro conjI impI; elim conjE)
  assume h: "dict_find iter KEY_BG_TIMESTAMP = Some ts" "dict_find iter KEY_GRAPH_DATA = Some g"
    "d = data (t_value g)" "6 \<le> t_length g"
    "MAX_GRAPH_POINTS < unat (d ! 4) + 256 * unat (d ! 5)"
    "MAX_GRAPH_POINTS \<le> length (s_graph_offsets s)"
    "MAX_GRAPH_POINTS \<le> length (s_graph_bg_values s)"
    "r = new_xdrip_data_callback now iter s"
  show "unat (s_graph_count (fst r)) = MAX_GRAPH_POINTS"
    by (rule oversized_main(1) [OF h])
  show "list_all (in_bounds (t_length g) MAX_GRAPH_POINTS) (snd r)"
    by (rule oversized_main(2) [OF h])
  show "if 6 + MAX_GRAPH_POINTS * 3 \<le> t_length g
       then map unat (take MAX_GRAPH_POINTS (s_graph_offsets (fst r))) =
              map (\<lambda>i. unat (d ! (6 + 2 * i)) + 256 * unat (d ! (6 + 2 * i + 1)))
                [0..<MAX_GRAPH_POINTS] \<and>
            map unat (take MAX_GRAPH_POINTS (s_graph_bg_values (fst r))) =
              map (\<lambda>i. 2 * unat (d ! (6 + 2 * MAX_GRAPH_POINTS + i))) [0..<MAX_GRAPH_POINTS]
       else s_graph_offsets (fst r) = s_graph_offsets s \<and>
            s_graph_bg_values (fst r) = s_graph_bg_values s"
    by (rule oversized_main(3) [OF h])
next
  assume h: "dict_find iter KEY_BG_TIMESTAMP = Some ts"
    "dict_find iter compact_KEY_GRAPH_DATA = Some h"
    "e = data (t_value h)" "5 \<le> t_length h"
    "compact_MAX_GRAPH_POINTS < unat (e ! 4)"
    "compact_MAX_GRAPH_POINTS \<le> length (s_graph_offsets c)"
    "compact_MAX_GRAPH_POINTS \<le> length (s_graph_bg_values c)"
    "q = compact_new_xdrip_data_callback now iter c"
  show "unat (s_graph_count (fst q)) = compact_MAX_GRAPH_POINTS"
    by (rule oversized_compact(1) [OF h])
  show "list_all (in_bounds (t_length h) compact_MAX_GRAPH_POINTS) (snd q)"
    by (rule oversized_compact(2) [OF h])
  show "if 5 + compact_MAX_GRAPH_POINTS * 2 \<le> t_length h
       then take compact_MAX_GRAPH_POINTS (s_graph_offsets (fst q)) =
              map (\<lambda>i. e ! (5 + i)) [0..<compact_MAX_GRAPH_POINTS] \<and>
            map unat (take compact_MAX_GRAPH_POINTS (s_graph_bg_values (fst q))) =
              map (\<lambda>i. 2 * unat (e ! (5 + compact_MAX_GRAPH_POINTS + i)))
                [0..<compact_MAX_GRAPH_POINTS]
       else s_graph_offsets (fst q) = s_graph_offsets c \<and>
            s_graph_bg_values (fst q) = s_graph_bg_values c"
    by (rule oversized_compact(3) [OF h])
qed

theorem oversized_count_clamped_witness:
  "dict_find oversized_message KEY_BG_TIMESTAMP = Some (uint_tuple 4 1000) \<and>
   dict_find oversized_message KEY_GRAPH_DATA = Some (data_tuple (replicate 906 0xFF)) \<and>
   dict_find oversized_message compact_KEY_GRAPH_DATA = Some (data_tuple (replicate 125 0xFF)) \<and>
   unat (replicate 906 (0xFF :: 8 word) ! 4) + 256 * unat (replicate 906 (0xFF :: 8 word) ! 5) = 65535 \<and>
   unat (replicate 125 (0xFF :: 8 word) ! 4) = 255 \<and>
   6 + MAX_GRAPH_POINTS * 3 \<le> t_length (data_tuple (replicate 906 0xFF)) \<and>
   5 + compact_MAX_GRAPH_POINTS * 2 \<le> t_length (data_tuple (replicate 125 0xFF)) \<and>
   unat (s_graph_count (fst (new_xdrip_data_callback 1100 oversized_message
     (initial_watch MAX_GRAPH_POINTS)))) = 300 \<and>
   list_all (in_bounds 906 300) (snd (new_xdrip_data_callback 1100 oversized_message
     (initial_watch MAX_GRAPH_POINTS))) \<and>
   unat (s_graph_count (fst (compact_new_xdrip_data_callback 1100 oversized_message
     (initial_watch compact_MAX_GRAPH_POINTS)))) = 60 \<and>
   list_all (in_bounds 125 60) (snd (compact_new_xdrip_data_callback 1100 oversized_message
     (initial_watch compact_MAX_GRAPH_POINTS)))"
proof -
  have main: "dict_find oversized_message KEY_BG_TIMESTAMP = Some (uint_tuple 4 1000) \<and>
    dict_find oversized_message KEY_GRAPH_DATA = Some (data_tuple (replicate 906 0xFF)) \<and>
    replicate 906 0xFF = data (t_value (data_tuple (replicate 906 0xFF))) \<and>
    6 \<le> t_length (data_tuple (replicate 906 0xFF)) \<and>
    MAX_GRAPH_POINTS <
      unat (replicate 906 (0xFF :: 8 word) ! 4) + 256 * unat (replicate 906 (0xFF :: 8 word) ! 5) \<and>
    MAX_GRAPH_POINTS \<le> length (s_graph_offsets (initial_watch MAX_GRAPH_POINTS :: watch300)) \<and>
    MAX_GRAPH_POINTS \<le> length (s_graph_bg_values (initial_watch MAX_GRAPH_POINTS :: watch300)) \<and>
    new_xdrip_data_callback 1100 oversized_message (initial_watch MAX_GRAPH_POINTS) =
      new_xdrip_data_callback 1100 oversized_message (initial_watch MAX_GRAPH_POINTS)"
    by (simp add: oversized_message_def dict_find_def keys data_tuple_def initial_watch_def
        MAX_GRAPH_POINTS_def)
  have compact: "dict_find oversized_message KEY_BG_TIMESTAMP = Some (uint_tuple 4 1000) \<and>
    dict_find oversized_message compact_KEY_GRAPH_DATA = Some (data_tuple (replicate 125 0xFF)) \<and>
    replicate 125 0xFF = data (t_value (data_tuple (replicate 125 0xFF))) \<and>
    5 \<le> t_length (data_tuple (replicate 125 0xFF)) \<and>
    compact_MAX_GRAPH_POINTS < unat (replicate 125 (0xFF :: 8 word) ! 4) \<and>
    compact_MAX_GRAPH_POINTS \<le>
      length (s_graph_offsets (initial_watch compact_MAX_GRAPH_POINTS :: watch60)) \<and>
    compact_MAX_GRAPH_POINTS \<le>
      length (s_graph_bg_values (initial_watch compact_MAX_GRAPH_POINTS :: watch60)) \<and>
    compact_new_xdrip_data_callback 1100 oversized_message (initial_watch compact_MAX_GRAPH_POINTS) =
      compact_new_xdrip_data_callback 1100 oversized_message (initial_watch compact_MAX_GRAPH_POINTS)"
    by (simp add: oversized_message_def dict_find_def keys data_tuple_def initial_watch_def
        compact_MAX_GRAPH_POINTS_def)
  note a = oversized_count_clamped [THEN conjunct1, THEN mp, OF main]
  note b = oversized_count_clamped [THEN conjunct2, THEN mp, OF compact]
  have len: "t_length (data_tuple (replicate 906 0xFF)) = 906"
    "t_length (data_tuple (replicate 125 0xFF)) = 125"
    by (simp_all add: data_tuple_def)
  show ?thesis
    using main compact a [THEN conjunct1] a [THEN conjunct2, THEN conjunct1]
      b [THEN conjunct1] b [THEN conjunct2, THEN conjunct1]
    by (simp add: len MAX_GRAPH_POINTS_def compact_MAX_GRAPH_POINTS_def)
qed

text \<open>
  Claim C5. A message that does not contain the timestamp key is a complete no-op: the
  callback returns the state it was given (Reading, graph series, both thresholds and the
  display) and evaluates no subscript. This holds in \<open>main.c\<close> and in the 60-point
  revision.
\<close>

theorem no_timestamp_is_no_op:
  assumes "dict_find iter KEY_BG_TIMESTAMP = None"
  shows "new_xdrip_data_callback now iter s = (s, []) \<and>
         compact_new_xdrip_data_callback now iter c = (c, [])"
  using assms by (simp add: new_xdrip_data_callback_def compact_new_xdrip_data_callback_def)

theorem no_timestamp_is_no_op_witness:
  "dict_find [KEY_BG_STRING \<mapsto> cstring_tuple ''5.4''] KEY_BG_TIMESTAMP = None \<and>
   new_xdrip_data_callback 0 [KEY_BG_STRING \<mapsto> cstring_tuple ''5.4''] (initial_watch MAX_GRAPH_POINTS) =
     (initial_watch MAX_GRAPH_POINTS, []) \<and>
   compact_new_xdrip_data_callback 0 [KEY_BG_STRING \<mapsto> cstring_tuple ''5.4'']
       (initial_watch compact_MAX_GRAPH_POINTS) =
     (initial_watch compact_MAX_GRAPH_POINTS, [])"
  using no_timestamp_is_no_op [of "[KEY_BG_STRING \<mapsto> cstring_tuple ''5.4'']" 0
      "initial_watch MAX_GRAPH_POINTS" "initial_watch compact_MAX_GRAPH_POINTS"]
  by (simp add: dict_find_def keys)

text \<open>
  Claim C6. For a destination of capacity \<open>c > 0\<close> (at least \<open>c\<close> characters long; the
  callback passes the 5-character BG buffer and the 6-character delta buffer with their
  sizes), \<open>safe_strncpy\<close> stores the first \<open>min (length source) (c - 1)\<close> characters of
  the source string and a NUL right after them: the C string left in the buffer is the
  source cut to \<open>c - 1\<close> characters. The buffer keeps its length and nothing at index
  \<open>c\<close> or beyond is changed.
\<close>

theorem safe_strncpy_truncates:
  assumes "0 < c" and "c \<le> length dest"
  shows "let r = safe_strncpy dest src c; n = min (length (c_str src)) (c - 1)
         in take n r = take n (c_str src) \<and> r ! n = NUL \<and> n < c \<and>
            c_str r = take (c - 1) (c_str src) \<and>
            length r = length dest \<and> drop c r = drop c dest"
proof -
  define n where "n = min (length (c_str src)) (c - 1)"
  define pre where "pre = take (c - 1) (c_str src)"
  have len: "length pre = n"
    by (simp add: pre_def n_def min.commute)
  have r: "safe_strncpy dest src c = pre @ replicate (c - n) NUL @ drop c dest"
    using safe_strncpy_eq [OF assms] by (simp add: pre_def n_def)
  have n: "n < c"
    using assms(1) by (simp add: n_def)
  then obtain k where k: "c - n = Suc k"
    by (cases "c - n") auto
  have pre_n: "pre = take n (c_str src)"
    by (simp add: pre_def n_def min_def)
  have no_nul: "NUL \<notin> set pre"
    using c_str_no_NUL [of src] by (auto simp add: pre_def dest: in_set_takeD)
  have "take n (safe_strncpy dest src c) = take n (c_str src)"
    by (simp add: r len pre_n [symmetric])
  moreover have "safe_strncpy dest src c ! n = NUL"
    by (simp add: r k nth_append len)
  moreover have "c_str (safe_strncpy dest src c) = take (c - 1) (c_str src)"
    using c_str_append_NUL [OF no_nul] by (simp add: r k pre_def)
  moreover have "length (safe_strncpy dest src c) = length dest"
    using assms(2) n by (simp add: r len)
  moreover have "drop c (safe_strncpy dest src c) = drop c dest"
    using n by (simp add: r len)
  ultimately show ?thesis
    using n by (simp add: Let_def n_def)
qed

theorem safe_strncpy_truncates_witness:
  "(0::nat) < 5 \<and> 5 \<le> length (''---'' @ [NUL, NUL, CHR ''x'']) \<and>
   safe_strncpy (''---'' @ [NUL, NUL, CHR ''x'']) ''12.345'' 5 = ''12.3'' @ [NUL, CHR ''x''] \<and>
   c_str (safe_strncpy (''---'' @ [NUL, NUL, CHR ''x'']) ''12.345'' 5) = ''12.3''"
  using safe_strncpy_truncates [of 5 "''---'' @ [NUL, NUL, CHR ''x'']" "''12.345''"]
  by (auto simp add: Let_def c_str_def safe_strncpy_eq)

text \<open>
  Claim C7. When the graph payload is shorter than the fixed header (6 bytes in
  \<open>main.c\<close>, 5 in the 60-point revision), the callback leaves the reference timestamp,
  the count, the offsets and the values as they were, and it evaluates no subscript at
  all, so no element of the payload is accessed. (The two thresholds have keys of their
  own and are stored whether or not there is a payload.)
\<close>

theorem short_payload_ignored:
  "(dict_find iter KEY_GRAPH_DATA = Some g \<and> t_length g < 6 \<longrightarrow>
      (let r = new_xdrip_data_callback now iter s
       in s_graph_ref_timestamp (fst r) = s_graph_ref_timestamp s \<and>
          s_graph_count (fst r) = s_graph_count s \<and>
          s_graph_offsets (fst r) = s_graph_offsets s \<and>
          s_graph_bg_values (fst r) = s_graph_bg_values s \<and>
          snd r = [])) \<and>
   (dict_find iter compact_KEY_GRAPH_DATA = Some g \<and> t_length g < 5 \<longrightarrow>
      (let r = compact_new_xdrip_data_callback now iter c
       in s_graph_ref_timestamp (fst r) = s_graph_ref_timestamp c \<and>
          s_graph_count (fst r) = s_graph_count c \<and>
          s_graph_offsets (fst r) = s_graph_offsets c \<and>
          s_graph_bg_values (fst r) = s_graph_bg_values c \<and>
          snd r = []))"
proof (cases "dict_find iter KEY_BG_TIMESTAMP")
  case None
  then show ?thesis
    by (simp add: new_xdrip_data_callback_def compact_new_xdrip_data_callback_def)
next
  case (Some ts)
  show ?thesis
    by (simp add: new_xdrip_data_callback_eq [OF Some] compact_new_xdrip_data_callback_eq [OF Some]
        display_keeps graph_data_short compact_graph_data_short)
qed

theorem short_payload_ignored_witness:
  "dict_find [KEY_BG_TIMESTAMP \<mapsto> uint_tuple 4 1000, KEY_GRAPH_DATA \<mapsto> data_tuple [1, 2, 3],
              compact_KEY_GRAPH_DATA \<mapsto> data_tuple [1, 2, 3]] KEY_GRAPH_DATA = Some (data_tuple [1, 2, 3]) \<and>
   dict_find [KEY_BG_TIMESTAMP \<mapsto> uint_tuple 4 1000, KEY_GRAPH_DATA \<mapsto> data_tuple [1, 2, 3],
              compact_KEY_GRAPH_DATA \<mapsto> data_tuple [1, 2, 3]] compact_KEY_GRAPH_DATA = Some (data_tuple [1, 2, 3]) \<and>
   t_length (data_tuple [1, 2, 3]) < 5 \<and>
   s_graph_count (fst (new_xdrip_data_callback 1100
       [KEY_BG_TIMESTAMP \<mapsto> uint_tuple 4 1000, KEY_GRAPH_DATA \<mapsto> data_tuple [1, 2, 3],
        compact_KEY_GRAPH_DATA \<mapsto> data_tuple [1, 2, 3]] (initial_watch MAX_GRAPH_POINTS))) = 0 \<and>
   snd (new_xdrip_data_callback 1100
       [KEY_BG_TIMESTAMP \<mapsto> uint_tuple 4 1000, KEY_GRAPH_DATA \<mapsto> data_tuple [1, 2, 3],
        compact_KEY_GRAPH_DATA \<mapsto> data_tuple [1, 2, 3]] (initial_watch MAX_GRAPH_POINTS)) = [] \<and>
   s_graph_count (fst (compact_new_xdrip_data_callback 1100
       [KEY_BG_TIMESTAMP \<mapsto> uint_tuple 4 1000, KEY_GRAPH_DATA \<mapsto> data_tuple [1, 2, 3],
        compact_KEY_GRAPH_DATA \<mapsto> data_tuple [1, 2, 3]] (initial_watch compact_MAX_GRAPH_POINTS))) = 0 \<and>
   snd (compact_new_xdrip_data_callback 1100
       [KEY_BG_TIMESTAMP \<mapsto> uint_tuple 4 1000, KEY_GRAPH_DATA \<mapsto> data_tuple [1, 2, 3],
        compact_KEY_GRAPH_DATA \<mapsto> data_tuple [1, 2, 3]] (initial_watch compact_MAX_GRAPH_POINTS)) = []"
  using short_payload_ignored [of
      "[KEY_BG_TIMESTAMP \<mapsto> uint_tuple 4 1000, KEY_GRAPH_DATA \<mapsto> data_tuple [1, 2, 3],
        compact_KEY_GRAPH_DATA \<mapsto> data_tuple [1, 2, 3]]"
      "data_tuple [1, 2, 3]" 1100 "initial_watch MAX_GRAPH_POINTS"
      "initial_watch compact_MAX_GRAPH_POINTS"]
  by (simp add: dict_find_def keys data_tuple_def Let_def initial_watch_def)

text \<open>
  Claim C8. A data message with an arrow index stores the received byte unchanged,
  whatever its value. \<open>update_displayed_xdrip_data\<close> gives the arrow layer no bitmap
  exactly when the stored index is 0 or at least the length of \<open>ARROWS\<close>, which is 8
  (the bitmap of a valid index is taken to be created).
\<close>

theorem arrow_index_stored_raw:
  assumes "dict_find iter KEY_BG_TIMESTAMP = Some ts" and "dict_find iter KEY_ARROW_INDEX = Some a"
  shows "(let s' = fst (new_xdrip_data_callback now iter s)
          in s_arrow_index s' = uint8 (t_value a) \<and>
             (arrow_layer_bitmap s' = None \<longleftrightarrow>
                uint8 (t_value a) = 0 \<or> length ARROWS \<le> unat (uint8 (t_value a)))) \<and>
         (let c' = fst (compact_new_xdrip_data_callback now iter c)
          in s_arrow_index c' = uint8 (t_value a) \<and>
             (arrow_layer_bitmap c' = None \<longleftrightarrow>
                uint8 (t_value a) = 0 \<or> length ARROWS \<le> unat (uint8 (t_value a)))) \<and>
         (arrow_layer_bitmap (update_displayed_xdrip_data w) = None \<longleftrightarrow>
            s_arrow_index w = 0 \<or> length ARROWS \<le> unat (s_arrow_index w)) \<and>
         length ARROWS = 8"
  using assms
  by (auto simp add: new_xdrip_data_callback_eq compact_new_xdrip_data_callback_eq Let_def
      display_keeps arrow_shown length_ARROWS word_greater_zero_iff)

theorem arrow_index_stored_raw_witness:
  "dict_find [KEY_BG_TIMESTAMP \<mapsto> uint_tuple 4 1000, KEY_ARROW_INDEX \<mapsto> uint_tuple 1 9]
     KEY_BG_TIMESTAMP = Some (uint_tuple 4 1000) \<and>
   dict_find [KEY_BG_TIMESTAMP \<mapsto> uint_tuple 4 1000, KEY_ARROW_INDEX \<mapsto> uint_tuple 1 9]
     KEY_ARROW_INDEX = Some (uint_tuple 1 9) \<and>
   s_arrow_index (fst (new_xdrip_data_callback 1100
     [KEY_BG_TIMESTAMP \<mapsto> uint_tuple 4 1000, KEY_ARROW_INDEX \<mapsto> uint_tuple 1 9]
     (initial_watch MAX_GRAPH_POINTS))) = 9 \<and>
   arrow_layer_bitmap (fst (new_xdrip_data_callback 1100
     [KEY_BG_TIMESTAMP \<mapsto> uint_tuple 4 1000, KEY_ARROW_INDEX \<mapsto> uint_tuple 1 9]
     (initial_watch MAX_GRAPH_POINTS))) = None \<and>
   s_arrow_index (fst (compact_new_xdrip_data_callback 1100
     [KEY_BG_TIMESTAMP \<mapsto> uint_tuple 4 1000, KEY_ARROW_INDEX \<mapsto> uint_tuple 1 9]
     (initial_watch compact_MAX_GRAPH_POINTS))) = 9 \<and>
   arrow_layer_bitmap (fst (compact_new_xdrip_data_callback 1100
     [KEY_BG_TIMESTAMP \<mapsto> uint_tuple 4 1000, KEY_ARROW_INDEX \<mapsto> uint_tuple 1 9]
     (initial_watch compact_MAX_GRAPH_POINTS))) = None"
  using arrow_index_stored_raw [of
      "[KEY_BG_TIMESTAMP \<mapsto> uint_tuple 4 1000, KEY_ARROW_INDEX \<mapsto> uint_tuple 1 9]"
      "uint_tuple 4 1000" "uint_tuple 1 9" 1100 "initial_watch MAX_GRAPH_POINTS"
      "initial_watch compact_MAX_GRAPH_POINTS" "initial_watch MAX_GRAPH_POINTS"]
  by (auto simp add: dict_find_def keys uint_tuple_def Let_def length_ARROWS)

text \<open>
  Claim C9. In a data message (timestamp key present) each of the BG string, the delta
  string, the arrow index, the high line and the low line keeps its previous value when
  its key is absent and is overwritten from the tuple when its key is present: the strings
  by \<open>safe_strncpy\<close> into their 5- and 6-character buffers, the scalars by the value
  read.
\<close>

theorem optional_fields_merge:
  assumes "dict_find iter KEY_BG_TIMESTAMP = Some ts"
  shows "(let s' = fst (new_xdrip_data_callback now iter s)
          in s_bg_string s' =
               (case dict_find iter KEY_BG_STRING of None \<Rightarrow> s_bg_string s
                | Some t \<Rightarrow> safe_strncpy (s_bg_string s) (cstring (t_value t)) 5) \<and>
             s_delta_string s' =
               (case dict_find iter KEY_DELTA_STRING of None \<Rightarrow> s_delta_string s
                | Some t \<Rightarrow> safe_strncpy (s_delta_string s) (cstring (t_value t)) 6) \<and>
             s_arrow_index s' =
               (case dict_find iter KEY_ARROW_INDEX of None \<Rightarrow> s_arrow_index s
                | Some t \<Rightarrow> uint8 (t_value t)) \<and>
             s_graph_high_line s' =
               (case dict_find iter KEY_GRAPH_HIGH_LINE of None \<Rightarrow> s_graph_high_line s
                | Some t \<Rightarrow> uint16 (t_value t)) \<and>
             s_graph_low_line s' =
               (case dict_find iter KEY_GRAPH_LOW_LINE of None \<Rightarrow> s_graph_low_line s
                | Some t \<Rightarrow> uint16 (t_value t))) \<and>
         (let c' = fst (compact_new_xdrip_data_callback now iter c)
          in s_bg_string c' =
               (case dict_find iter KEY_BG_STRING of None \<Rightarrow> s_bg_string c
                | Some t \<Rightarrow> safe_strncpy (s_bg_string c) (cstring (t_value t)) 5) \<and>
             s_delta_string c' =
               (case dict_find iter KEY_DELTA_STRING of None \<Rightarrow> s_delta_string c
                | Some t \<Rightarrow> safe_strncpy (s_delta_string c) (cstring (t_value t)) 6) \<and>
             s_arrow_index c' =
               (case dict_find iter KEY_ARROW_INDEX of None \<Rightarrow> s_arrow_index c
                | Some t \<Rightarrow> uint8 (t_value t)) \<and>
             s_graph_high_line c' =
               (case dict_find iter compact_KEY_GRAPH_HIGH_LINE of None \<Rightarrow> s_graph_high_line c
                | Some t \<Rightarrow> uint16 (t_value t)) \<and>
             s_graph_low_line c' =
               (case dict_find iter compact_KEY_GRAPH_LOW_LINE of None \<Rightarrow> s_graph_low_line c
                | Some t \<Rightarrow> uint16 (t_value t)))"
  using assms
  by (simp add: new_xdrip_data_callback_eq compact_new_xdrip_data_callback_eq Let_def display_keeps)

theorem optional_fields_merge_witness:
  "dict_find [KEY_BG_TIMESTAMP \<mapsto> uint_tuple 4 1000, KEY_BG_STRING \<mapsto> cstring_tuple ''5.4'',
              KEY_GRAPH_HIGH_LINE \<mapsto> uint_tuple 2 200, compact_KEY_GRAPH_HIGH_LINE \<mapsto> uint_tuple 2 200]
     KEY_BG_TIMESTAMP = Some (uint_tuple 4 1000) \<and>
   (let s' = fst (new_xdrip_data_callback 1100
        [KEY_BG_TIMESTAMP \<mapsto> uint_tuple 4 1000, KEY_BG_STRING \<mapsto> cstring_tuple ''5.4'',
         KEY_GRAPH_HIGH_LINE \<mapsto> uint_tuple 2 200, compact_KEY_GRAPH_HIGH_LINE \<mapsto> uint_tuple 2 200]
        (initial_watch MAX_GRAPH_POINTS))
    in s_bg_string s' = ''5.4'' @ [NUL, NUL] \<and> s_delta_string s' = replicate 6 NUL \<and>
       s_arrow_index s' = 0 \<and> s_graph_high_line s' = 200 \<and> s_graph_low_line s' = 72) \<and>
   (let c' = fst (compact_new_xdrip_data_callback 1100
        [KEY_BG_TIMESTAMP \<mapsto> uint_tuple 4 1000, KEY_BG_STRING \<mapsto> cstring_tuple ''5.4'',
         KEY_GRAPH_HIGH_LINE \<mapsto> uint_tuple 2 200, compact_KEY_GRAPH_HIGH_LINE \<mapsto> uint_tuple 2 200]
        (initial_watch compact_MAX_GRAPH_POINTS))
    in s_bg_string c' = ''5.4'' @ [NUL, NUL] \<and> s_delta_string c' = replicate 6 NUL \<and>
       s_arrow_index c' = 0 \<and> s_graph_high_line c' = 200 \<and> s_graph_low_line c' = 72)"
  using optional_fields_merge [of
      "[KEY_BG_TIMESTAMP \<mapsto> uint_tuple 4 1000, KEY_BG_STRING \<mapsto> cstring_tuple ''5.4'',
        KEY_GRAPH_HIGH_LINE \<mapsto> uint_tuple 2 200, compact_KEY_GRAPH_HIGH_LINE \<mapsto> uint_tuple 2 200]"
      "uint_tuple 4 1000" 1100 "initial_watch MAX_GRAPH_POINTS"
      "initial_watch compact_MAX_GRAPH_POINTS"]
  by (auto simp add: dict_find_def keys uint_tuple_def cstring_tuple_def Let_def initial_watch_def
      safe_strncpy_example [simplified])

text \<open>
  Claim C10. When the timestamp tuple of a message holds 0, the callback stores 0 in
  \<open>s_bg_timestamp\<close>, the "never received" value, and \<open>update_displayed_time_ago\<close> then
  returns at once: the time-ago buffer keeps whatever it showed. The other fields of the
  message are applied all the same. The BG string and the delta string are copied with
  \<open>safe_strncpy\<close> into their buffers of 5 and 6 characters, which then hold the text cut to
  4 and 5 characters; the arrow index, the high line and the low line take the value of
  their tuple; a field whose key is absent keeps its value; the arrow layer shows the
  bitmap of the new index, or none for an index outside 1..7; a well-formed graph payload
  is decoded into the reference timestamp, the count, the offsets and the doubled values.
  Altogether the resulting state is the one the same message gives with an arbitrary
  timestamp tuple \<open>ts'\<close>, but for the stored timestamp and the time-ago buffer. Both
  revisions behave so.
\<close>

theorem zero_timestamp_sentinel:
  assumes "dict_find iter KEY_BG_TIMESTAMP = Some ts" and "uint32 (t_value ts) = 0"
  shows "(let s' = fst (new_xdrip_data_callback now iter s)
          in s_bg_timestamp s' = 0 \<and> s_time_ago_buffer s' = s_time_ago_buffer s \<and>
             s_bg_string s' =
               (case dict_find iter KEY_BG_STRING of None \<Rightarrow> s_bg_string s
                | Some t \<Rightarrow> safe_strncpy (s_bg_string s) (cstring (t_value t)) 5) \<and>
             s_delta_string s' =
               (case dict_find iter KEY_DELTA_STRING of None \<Rightarrow> s_delta_string s
                | Some t \<Rightarrow> safe_strncpy (s_delta_string s) (cstring (t_value t)) 6) \<and>
             s_arrow_index s' =
               (case dict_find iter KEY_ARROW_INDEX of None \<Rightarrow> s_arrow_index s
                | Some t \<Rightarrow> uint8 (t_value t)) \<and>
             s_graph_high_line s' =
               (case dict_find iter KEY_GRAPH_HIGH_LINE of None \<Rightarrow> s_graph_high_line s
                | Some t \<Rightarrow> uint16 (t_value t)) \<and>
             s_graph_low_line s' =
               (case dict_find iter KEY_GRAPH_LOW_LINE of None \<Rightarrow> s_graph_low_line s
                | Some t \<Rightarrow> uint16 (t_value t)) \<and>
             (dict_find iter KEY_BG_STRING = Some b \<and> 5 \<le> length (s_bg_string s) \<longrightarrow>
                c_str (s_bg_string s') = take 4 (c_str (cstring (t_value b)))) \<and>
             (dict_find iter KEY_DELTA_STRING = Some b \<and> 6 \<le> length (s_delta_string s) \<longrightarrow>
                c_str (s_delta_string s') = take 5 (c_str (cstring (t_value b)))) \<and>
             arrow_layer_bitmap s' =
               (if 0 < s_arrow_index s' \<and> unat (s_arrow_index s') < length ARROWS
                then Some (ARROWS ! unat (s_arrow_index s')) else None) \<and>
             (dict_find iter KEY_GRAPH_DATA = Some g \<and> d = data (t_value g) \<and>
              n = unat (d ! 4) + 256 * unat (d ! 5) \<and> n \<le> MAX_GRAPH_POINTS \<and>
              6 + n * 3 \<le> t_length g \<and>
              MAX_GRAPH_POINTS \<le> length (s_graph_offsets s) \<and>
              MAX_GRAPH_POINTS \<le> length (s_graph_bg_values s) \<longrightarrow>
                unat (s_graph_ref_timestamp s') =
                  unat (d ! 0) + 256 * unat (d ! 1) + 65536 * unat (d ! 2) +
                  16777216 * unat (d ! 3) \<and>
                unat (s_graph_count s') = n \<and>
                map unat (take n (s_graph_offsets s')) =
                  map (\<lambda>i. unat (d ! (6 + 2 * i)) + 256 * unat (d ! (6 + 2 * i + 1))) [0..<n] \<and>
                map unat (take n (s_graph_bg_values s')) =
                  map (\<lambda>i. 2 * unat (d ! (6 + 2 * n + i))) [0..<n]) \<and>
             s' = (fst (new_xdrip_data_callback now (iter(KEY_BG_TIMESTAMP \<mapsto> ts')) s))
                    \<lparr>s_bg_timestamp := 0, s_time_ago_buffer := s_time_ago_buffer s\<rparr>) \<and>
         (let c' = fst (compact_new_xdrip_data_callback now iter c)
          in s_bg_timestamp c' = 0 \<and> s_time_ago_buffer c' = s_time_ago_buffer c \<and>
             s_bg_string c' =
               (case dict_find iter KEY_BG_STRING of None \<Rightarrow> s_bg_string c
                | Some t \<Rightarrow> safe_strncpy (s_bg_string c) (cstring (t_value t)) 5) \<and>
             s_delta_string c' =
               (case dict_find iter KEY_DELTA_STRING of None \<Rightarrow> s_delta_string c
                | Some t \<Rightarrow> safe_strncpy (s_delta_string c) (cstring (t_value t)) 6) \<and>
             s_arrow_index c' =
               (case dict_find iter KEY_ARROW_INDEX of None \<Rightarrow> s_arrow_index c
                | Some t \<Rightarrow> uint8 (t_value t)) \<and>
             s_graph_high_line c' =
               (case dict_find iter compact_KEY_GRAPH_HIGH_LINE of None \<Rightarrow> s_graph_high_line c
                | Some t \<Rightarrow> uint16 (t_value t)) \<and>
             s_graph_low_line c' =
               (case dict_find iter compact_KEY_GRAPH_LOW_LINE of None \<Rightarrow> s_graph_low_line c
                | Some t \<Rightarrow> uint16 (t_value t)) \<and>
             (dict_find iter KEY_BG_STRING = Some b \<and> 5 \<le> length (s_bg_string c) \<longrightarrow>
                c_str (s_bg_string c') = take 4 (c_str (cstring (t_value b)))) \<and>
             (dict_find iter KEY_DELTA_STRING = Some b \<and> 6 \<le> length (s_delta_string c) \<longrightarrow>
                c_str (s_delta_string c') = take 5 (c_str (cstring (t_value b)))) \<and>
             arrow_layer_bitmap c' =
               (if 0 < s_arrow_index c' \<and> unat (s_arrow_index c') < length ARROWS
                then Some (ARROWS ! unat (s_arrow_index c')) else None) \<and>
             (dict_find iter compact_KEY_GRAPH_DATA = Some h \<and> e = data (t_value h) \<and>
              m = unat (e ! 4) \<and> m \<le> compact_MAX_GRAPH_POINTS \<and>
              5 + m * 2 \<le> t_length h \<and>
              compact_MAX_GRAPH_POINTS \<le> length (s_graph_offsets c) \<and>
              compact_MAX_GRAPH_POINTS \<le> length (s_graph_bg_values c) \<longrightarrow>
                unat (s_graph_ref_timestamp c') =
                  unat (e ! 0) + 256 * unat (e ! 1) + 65536 * unat (e ! 2) +
                  16777216 * unat (e ! 3) \<and>
                unat (s_graph_count c') = m \<and>
                take m (s_graph_offsets c') = map (\<lambda>i. e ! (5 + i)) [0..<m] \<and>
                map unat (take m (s_graph_bg_values c')) =
                  map (\<lambda>i. 2 * unat (e ! (5 + m + i))) [0..<m]) \<and>
             c' = (fst (compact_new_xdrip_data_callback now (iter(KEY_BG_TIMESTAMP \<mapsto> ts')) c))
                    \<lparr>s_bg_timestamp := 0, s_time_ago_buffer := s_time_ago_buffer c\<rparr>)"
proof -
  let ?s = "fst (new_xdrip_data_callback now iter s)"
  let ?c = "fst (compact_new_xdrip_data_callback now iter c)"
  note eq = new_xdrip_data_callback_eq [OF assms(1)] compact_new_xdrip_data_callback_eq [OF assms(1)]
  have stamp: "s_bg_timestamp ?s = 0" "s_bg_timestamp ?c = 0"
    using assms(2) by (simp_all add: eq display_keeps)
  have buffer: "s_time_ago_buffer ?s = s_time_ago_buffer s" "s_time_ago_buffer ?c = s_time_ago_buffer c"
    using assms(2)
    by (simp_all add: eq display_keeps update_displayed_time_ago_sentinel graph_data_keeps
        compact_graph_data_keeps)
  have fields:
    "s_bg_string ?s = (case dict_find iter KEY_BG_STRING of None \<Rightarrow> s_bg_string s
        | Some t \<Rightarrow> safe_strncpy (s_bg_string s) (cstring (t_value t)) 5)"
    "s_delta_string ?s = (case dict_find iter KEY_DELTA_STRING of None \<Rightarrow> s_delta_string s
        | Some t \<Rightarrow> safe_strncpy (s_delta_string s) (cstring (t_value t)) 6)"
    "s_arrow_index ?s = (case dict_find iter KEY_ARROW_INDEX of None \<Rightarrow> s_arrow_index s
        | Some t \<Rightarrow> uint8 (t_value t))"
    "s_graph_high_line ?s = (case dict_find iter KEY_GRAPH_HIGH_LINE of None \<Rightarrow> s_graph_high_line s
        | Some t \<Rightarrow> uint16 (t_value t))"
    "s_graph_low_line ?s = (case dict_find iter KEY_GRAPH_LOW_LINE of None \<Rightarrow> s_graph_low_line s
        | Some t \<Rightarrow> uint16 (t_value t))"
    "s_bg_string ?c = (case dict_find iter KEY_BG_STRING of None \<Rightarrow> s_bg_string c
        | Some t \<Rightarrow> safe_strncpy (s_bg_string c) (cstring (t_value t)) 5)"
    "s_delta_string ?c = (case dict_find iter KEY_DELTA_STRING of None \<Rightarrow> s_delta_string c
        | Some t \<Rightarrow> safe_strncpy (s_delta_string c) (cstring (t_value t)) 6)"
    "s_arrow_index ?c = (case dict_find iter KEY_ARROW_INDEX of None \<Rightarrow> s_arrow_index c
        | Some t \<Rightarrow> uint8 (t_value t))"
    "s_graph_high_line ?c = (case dict_find iter compact_KEY_GRAPH_HIGH_LINE of None \<Rightarrow> s_graph_high_line c
        | Some t \<Rightarrow> uint16 (t_value t))"
    "s_graph_low_line ?c = (case dict_find iter compact_KEY_GRAPH_LOW_LINE of None \<Rightarrow> s_graph_low_line c
        | Some t \<Rightarrow> uint16 (t_value t))"
    by (simp_all add: eq display_keeps)
  have strings:
    "dict_find iter KEY_BG_STRING = Some b \<and> 5 \<le> length (s_bg_string s) \<longrightarrow>
       c_str (s_bg_string ?s) = take 4 (c_str (cstring (t_value b)))"
    "dict_find iter KEY_DELTA_STRING = Some b \<and> 6 \<le> length (s_delta_string s) \<longrightarrow>
       c_str (s_delta_string ?s) = take 5 (c_str (cstring (t_value b)))"
    "dict_find iter KEY_BG_STRING = Some b \<and> 5 \<le> length (s_bg_string c) \<longrightarrow>
       c_str (s_bg_string ?c) = take 4 (c_str (cstring (t_value b)))"
    "dict_find iter KEY_DELTA_STRING = Some b \<and> 6 \<le> length (s_delta_string c) \<longrightarrow>
       c_str (s_delta_string ?c) = take 5 (c_str (cstring (t_value b)))"
    by (auto simp add: fields c_str_safe_strncpy)
  have arrow:
    "arrow_layer_bitmap ?s =
       (if 0 < s_arrow_index ?s \<and> unat (s_arrow_index ?s) < length ARROWS
        then Some (ARROWS ! unat (s_arrow_index ?s)) else None)"
    "arrow_layer_bitmap ?c =
       (if 0 < s_arrow_index ?c \<and> unat (s_arrow_index ?c) < length ARROWS
        then Some (ARROWS ! unat (s_arrow_index ?c)) else None)"
    by (simp_all add: eq display_keeps arrow_shown length_ARROWS)
  have graph:
    "dict_find iter KEY_GRAPH_DATA = Some g \<and> d = data (t_value g) \<and>
     n = unat (d ! 4) + 256 * unat (d ! 5) \<and> n \<le> MAX_GRAPH_POINTS \<and>
     6 + n * 3 \<le> t_length g \<and>
     MAX_GRAPH_POINTS \<le> length (s_graph_offsets s) \<and>
     MAX_GRAPH_POINTS \<le> length (s_graph_bg_values s) \<longrightarrow>
       unat (s_graph_ref_timestamp ?s) =
         unat (d ! 0) + 256 * unat (d ! 1) + 65536 * unat (d ! 2) + 16777216 * unat (d ! 3) \<and>
       unat (s_graph_count ?s) = n \<and>
       map unat (take n (s_graph_offsets ?s)) =
         map (\<lambda>i. unat (d ! (6 + 2 * i)) + 256 * unat (d ! (6 + 2 * i + 1))) [0..<n] \<and>
       map unat (take n (s_graph_bg_values ?s)) =
         map (\<lambda>i. 2 * unat (d ! (6 + 2 * n + i))) [0..<n]"
    using graph_decode_main [OF assms(1), of g d n s ?s now] by blast
  have compact_graph:
    "dict_find iter compact_KEY_GRAPH_DATA = Some h \<and> e = data (t_value h) \<and>
     m = unat (e ! 4) \<and> m \<le> compact_MAX_GRAPH_POINTS \<and>
     5 + m * 2 \<le> t_length h \<and>
     compact_MAX_GRAPH_POINTS \<le> length (s_graph_offsets c) \<and>
     compact_MAX_GRAPH_POINTS \<le> length (s_graph_bg_values c) \<longrightarrow>
       unat (s_graph_ref_timestamp ?c) =
         unat (e ! 0) + 256 * unat (e ! 1) + 65536 * unat (e ! 2) + 16777216 * unat (e ! 3) \<and>
       unat (s_graph_count ?c) = m \<and>
       take m (s_graph_offsets ?c) = map (\<lambda>i. e ! (5 + i)) [0..<m] \<and>
       map unat (take m (s_graph_bg_values ?c)) = map (\<lambda>i. 2 * unat (e ! (5 + m + i))) [0..<m]"
    using graph_decode_compact [OF assms(1), of h e m c ?c now] by blast
  note rel = zero_timestamp_main [OF assms, of now s ts']
    compact_zero_timestamp_main [OF assms, of now c ts']
  show ?thesis
    unfolding Let_def
    by (intro conjI stamp buffer fields strings arrow graph compact_graph rel)
qed

text \<open>
  The example starts from a watch that shows a reading taken at 900, with "10.2" on the
  display and "5m" as its age, and sends it a message with timestamp 0, BG string "5.4",
  arrow index 4 and the graph payload 1000, [(0, 100), (5, 120)]. The timestamp becomes 0
  and the age stays "5m", while the BG string, the arrow and the graph are those of the
  message. The same message with timestamp 1000, received at 1100, sets the age to "1m".
\<close>

theorem zero_timestamp_sentinel_witness:
  "s_bg_timestamp (stale_watch MAX_GRAPH_POINTS :: watch300) = 900 \<and>
   s_bg_string (stale_watch MAX_GRAPH_POINTS :: watch300) = ''10.2'' @ [NUL] \<and>
   s_arrow_index (stale_watch MAX_GRAPH_POINTS :: watch300) = 0 \<and>
   dict_find zero_timestamp_message KEY_BG_TIMESTAMP = Some (uint_tuple 4 0) \<and>
   uint32 (t_value (uint_tuple 4 0)) = 0 \<and>
   s_bg_timestamp
     (fst (new_xdrip_data_callback 1100 zero_timestamp_message (stale_watch MAX_GRAPH_POINTS))) = 0 \<and>
   s_time_ago_buffer
     (fst (new_xdrip_data_callback 1100 zero_timestamp_message (stale_watch MAX_GRAPH_POINTS))) = ''5m'' @ [NUL, NUL] \<and>
   s_bg_string
     (fst (new_xdrip_data_callback 1100 zero_timestamp_message (stale_watch MAX_GRAPH_POINTS))) = ''5.4'' @ [NUL, NUL] \<and>
   c_str (s_bg_string
     (fst (new_xdrip_data_callback 1100 zero_timestamp_message (stale_watch MAX_GRAPH_POINTS)))) = ''5.4'' \<and>
   s_delta_string
     (fst (new_xdrip_data_callback 1100 zero_timestamp_message (stale_watch MAX_GRAPH_POINTS))) = replicate 6 NUL \<and>
   s_arrow_index
     (fst (new_xdrip_data_callback 1100 zero_timestamp_message (stale_watch MAX_GRAPH_POINTS))) = 4 \<and>
   arrow_layer_bitmap
     (fst (new_xdrip_data_callback 1100 zero_timestamp_message (stale_watch MAX_GRAPH_POINTS))) = Some RESOURCE_ID_ARROW_FLAT \<and>
   unat (s_graph_ref_timestamp
     (fst (new_xdrip_data_callback 1100 zero_timestamp_message (stale_watch MAX_GRAPH_POINTS)))) = 1000 \<and>
   unat (s_graph_count
     (fst (new_xdrip_data_callback 1100 zero_timestamp_message (stale_watch MAX_GRAPH_POINTS)))) = 2 \<and>
   map unat (take 2 (s_graph_offsets
     (fst (new_xdrip_data_callback 1100 zero_timestamp_message (stale_watch MAX_GRAPH_POINTS))))) = [0, 5] \<and>
   map unat (take 2 (s_graph_bg_values
     (fst (new_xdrip_data_callback 1100 zero_timestamp_message (stale_watch MAX_GRAPH_POINTS))))) = [100, 120] \<and>
   s_bg_timestamp
     (fst (compact_new_xdrip_data_callback 1100 zero_timestamp_message
        (stale_watch compact_MAX_GRAPH_POINTS))) = 0 \<and>
   s_time_ago_buffer
     (fst (compact_new_xdrip_data_callback 1100 zero_timestamp_message
        (stale_watch compact_MAX_GRAPH_POINTS))) = ''5m'' @ [NUL, NUL] \<and>
   s_bg_string
     (fst (compact_new_xdrip_data_callback 1100 zero_timestamp_message
        (stale_watch compact_MAX_GRAPH_POINTS))) = ''5.4'' @ [NUL, NUL] \<and>
   c_str (s_bg_string
     (fst (compact_new_xdrip_data_callback 1100 zero_timestamp_message
        (stale_watch compact_MAX_GRAPH_POINTS)))) = ''5.4'' \<and>
   s_arrow_index
     (fst (compact_new_xdrip_data_callback 1100 zero_timestamp_message
        (stale_watch compact_MAX_GRAPH_POINTS))) = 4 \<and>
   arrow_layer_bitmap
     (fst (compact_new_xdrip_data_callback 1100 zero_timestamp_message
        (stale_watch compact_MAX_GRAPH_POINTS))) = Some RESOURCE_ID_ARROW_FLAT \<and>
   unat (s_graph_ref_timestamp
     (fst (compact_new_xdrip_data_callback 1100 zero_timestamp_message
        (stale_watch compact_MAX_GRAPH_POINTS)))) = 1000 \<and>
   unat (s_graph_count
     (fst (compact_new_xdrip_data_callback 1100 zero_timestamp_message
        (stale_watch compact_MAX_GRAPH_POINTS)))) = 2 \<and>
   take 2 (s_graph_offsets
     (fst (compact_new_xdrip_data_callback 1100 zero_timestamp_message
        (stale_watch compact_MAX_GRAPH_POINTS)))) = [0, 5] \<and>
   map unat (take 2 (s_graph_bg_values
     (fst (compact_new_xdrip_data_callback 1100 zero_timestamp_message
        (stale_watch compact_MAX_GRAPH_POINTS))))) = [100, 120] \<and>
   s_time_ago_buffer
     (fst (new_xdrip_data_callback 1100
        (zero_timestamp_message(KEY_BG_TIMESTAMP \<mapsto> uint_tuple 4 1000))
        (stale_watch MAX_GRAPH_POINTS))) = ''1m'' @ [NUL, NUL] \<and>
   s_time_ago_buffer
     (fst (compact_new_xdrip_data_callback 1100
        (zero_timestamp_message(KEY_BG_TIMESTAMP \<mapsto> uint_tuple 4 1000))
        (stale_watch compact_MAX_GRAPH_POINTS))) = ''1m'' @ [NUL, NUL]"
proof -
  let ?s = "fst (new_xdrip_data_callback 1100 zero_timestamp_message (stale_watch MAX_GRAPH_POINTS))"
  let ?c = "fst (compact_new_xdrip_data_callback 1100 zero_timestamp_message
        (stale_watch compact_MAX_GRAPH_POINTS))"
  note t = zero_timestamp_sentinel [where iter = zero_timestamp_message and ts = "uint_tuple 4 0"
      and now = 1100 and s = "stale_watch MAX_GRAPH_POINTS"
      and c = "stale_watch compact_MAX_GRAPH_POINTS" and b = "cstring_tuple ''5.4''"
      and g = "data_tuple [0xE8, 3, 0, 0, 2, 0, 0, 0, 5, 0, 50, 60]"
      and d = "[0xE8, 3, 0, 0, 2, 0, 0, 0, 5, 0, 50, 60]" and n = 2
      and h = "data_tuple [0xE8, 3, 0, 0, 2, 0, 5, 50, 60]"
      and e = "[0xE8, 3, 0, 0, 2, 0, 5, 50, 60]" and m = 2, unfolded Let_def,
      OF zero_timestamp_message_lookup(1)]
  have zero: "uint32 (t_value (uint_tuple 4 0)) = 0"
    by (simp add: uint_tuple_def)
  note main = t [OF zero, THEN conjunct1] and compact = t [OF zero, THEN conjunct2]
  note m1 = main [THEN conjunct1] and r1 = main [THEN conjunct2]
  note m2 = r1 [THEN conjunct1] and r2 = r1 [THEN conjunct2]
  note m3 = r2 [THEN conjunct1] and r3 = r2 [THEN conjunct2]
  note m4 = r3 [THEN conjunct1] and r4 = r3 [THEN conjunct2]
  note m5 = r4 [THEN conjunct1] and r5 = r4 [THEN conjunct2]
  note r6 = r5 [THEN conjunct2]
  note r7 = r6 [THEN conjunct2]
  note m8 = r7 [THEN conjunct1] and r8 = r7 [THEN conjunct2]
  note r9 = r8 [THEN conjunct2]
  note m10 = r9 [THEN conjunct1] and r10 = r9 [THEN conjunct2]
  note m11 = r10 [THEN conjunct1]
  note c1 = compact [THEN conjunct1] and q1 = compact [THEN conjunct2]
  note c2 = q1 [THEN conjunct1] and q2 = q1 [THEN conjunct2]
  note c3 = q2 [THEN conjunct1] and q3 = q2 [THEN conjunct2]
  note q4 = q3 [THEN conjunct2]
  note c5 = q4 [THEN conjunct1] and q5 = q4 [THEN conjunct2]
  note q6 = q5 [THEN conjunct2]
  note q7 = q6 [THEN conjunct2]
  note c8 = q7 [THEN conjunct1] and q8 = q7 [THEN conjunct2]
  note q9 = q8 [THEN conjunct2]
  note c10 = q9 [THEN conjunct1] and q10 = q9 [THEN conjunct2]
  note c11 = q10 [THEN conjunct1]
  have bg: "s_bg_string ?s = ''5.4'' @ [NUL, NUL]" "s_bg_string ?c = ''5.4'' @ [NUL, NUL]"
    using m3 c3
    by (simp_all add: zero_timestamp_message_lookup stale_watch_fields cstring_tuple_def
        safe_strncpy_stale)
  have str: "c_str (s_bg_string ?s) = ''5.4''" "c_str (s_bg_string ?c) = ''5.4''"
    using m8 c8
    by (simp_all add: zero_timestamp_message_lookup stale_watch_fields cstring_tuple_def c_str_def)
  have delta: "s_delta_string ?s = replicate 6 NUL"
    using m4 by (simp add: zero_timestamp_message_lookup stale_watch_fields)
  have idx: "s_arrow_index ?s = 4" "s_arrow_index ?c = 4"
    using m5 c5 by (simp_all add: zero_timestamp_message_lookup uint_tuple_def)
  have arrow: "arrow_layer_bitmap ?s = Some RESOURCE_ID_ARROW_FLAT"
    "arrow_layer_bitmap ?c = Some RESOURCE_ID_ARROW_FLAT"
    using m10 c10 by (simp_all add: idx ARROWS_def)
  have graph: "unat (s_graph_ref_timestamp ?s) = 1000 \<and> unat (s_graph_count ?s) = 2 \<and>
      map unat (take 2 (s_graph_offsets ?s)) = [0, 5] \<and>
      map unat (take 2 (s_graph_bg_values ?s)) = [100, 120]"
    using m11
    by (simp add: zero_timestamp_message_lookup stale_watch_fields data_tuple_def
        MAX_GRAPH_POINTS_def upt_0_2)
  have compact_graph: "unat (s_graph_ref_timestamp ?c) = 1000 \<and> unat (s_graph_count ?c) = 2 \<and>
      take 2 (s_graph_offsets ?c) = [0, 5] \<and>
      map unat (take 2 (s_graph_bg_values ?c)) = [100, 120]"
    using c11
    by (simp add: zero_timestamp_message_lookup stale_watch_fields data_tuple_def
        compact_MAX_GRAPH_POINTS_def upt_0_2)
  show ?thesis
    using m1 m2 c1 c2 bg str delta idx arrow graph compact_graph zero
    by (simp add: zero_timestamp_message_lookup stale_watch_fields later_timestamp_time_ago)
qed

section \<open>Memory safety of the graph block\<close>

text \<open>
  Where the graph block keeps in bounds. In \<open>main.c\<close> every subscript of a data message
  is in bounds unless the payload covers the header and declares no points; in the
  60-point revision, which has no log lines after the loops, every subscript is in bounds
  for every payload. The buffers are taken to have their declared sizes.
\<close>

theorem accesses_in_bounds:
  "(dict_find iter KEY_BG_TIMESTAMP = Some ts \<and> dict_find iter KEY_GRAPH_DATA = Some g \<and>
    MAX_GRAPH_POINTS \<le> length (s_graph_offsets s) \<and>
    MAX_GRAPH_POINTS \<le> length (s_graph_bg_values s) \<longrightarrow>
      (list_all (in_bounds (t_length g) MAX_GRAPH_POINTS) (snd (new_xdrip_data_callback now iter s)) \<longleftrightarrow>
         \<not> (6 \<le> t_length g \<and> data (t_value g) ! 4 = 0 \<and> data (t_value g) ! 5 = 0))) \<and>
   (dict_find iter KEY_BG_TIMESTAMP = Some ts \<and> dict_find iter compact_KEY_GRAPH_DATA = Some h \<and>
    compact_MAX_GRAPH_POINTS \<le> length (s_graph_offsets c) \<and>
    compact_MAX_GRAPH_POINTS \<le> length (s_graph_bg_values c) \<longrightarrow>
      list_all (in_bounds (t_length h) compact_MAX_GRAPH_POINTS)
        (snd (compact_new_xdrip_data_callback now iter c)))"
proof (intro conjI impI; elim conjE)
  assume ts: "dict_find iter KEY_BG_TIMESTAMP = Some ts"
    and g: "dict_find iter KEY_GRAPH_DATA = Some g"
    and buf: "MAX_GRAPH_POINTS \<le> length (s_graph_offsets s)"
      "MAX_GRAPH_POINTS \<le> length (s_graph_bg_values s)"
  show "list_all (in_bounds (t_length g) MAX_GRAPH_POINTS) (snd (new_xdrip_data_callback now iter s)) \<longleftrightarrow>
      \<not> (6 \<le> t_length g \<and> data (t_value g) ! 4 = 0 \<and> data (t_value g) ! 5 = 0)"
    using graph_data_in_bounds [OF buf, of g]
    by (simp add: callback_graph_fields [OF ts] g clamped_count_zero)
next
  assume ts: "dict_find iter KEY_BG_TIMESTAMP = Some ts"
    and h: "dict_find iter compact_KEY_GRAPH_DATA = Some h"
    and buf: "compact_MAX_GRAPH_POINTS \<le> length (s_graph_offsets c)"
      "compact_MAX_GRAPH_POINTS \<le> length (s_graph_bg_values c)"
  show "list_all (in_bounds (t_length h) compact_MAX_GRAPH_POINTS)
      (snd (compact_new_xdrip_data_callback now iter c))"
    using compact_graph_data_in_bounds [OF buf, of h]
    by (simp add: compact_callback_graph_fields [OF ts] h)
qed

theorem accesses_in_bounds_witness:
  "dict_find example_message KEY_BG_TIMESTAMP = Some (uint_tuple 4 1000) \<and>
   dict_find example_message KEY_GRAPH_DATA =
     Some (data_tuple [0xE8, 3, 0, 0, 2, 0, 0, 0, 5, 0, 50, 60]) \<and>
   dict_find example_message compact_KEY_GRAPH_DATA =
     Some (data_tuple [0xE8, 3, 0, 0, 2, 0, 5, 50, 60]) \<and>
   list_all (in_bounds 12 MAX_GRAPH_POINTS)
     (snd (new_xdrip_data_callback 1100 example_message (initial_watch MAX_GRAPH_POINTS))) \<and>
   list_all (in_bounds 9 compact_MAX_GRAPH_POINTS)
     (snd (compact_new_xdrip_data_callback 1100 example_message
        (initial_watch compact_MAX_GRAPH_POINTS)))"
proof -
  have main: "dict_find example_message KEY_BG_TIMESTAMP = Some (uint_tuple 4 1000) \<and>
    dict_find example_message KEY_GRAPH_DATA =
      Some (data_tuple [0xE8, 3, 0, 0, 2, 0, 0, 0, 5, 0, 50, 60]) \<and>
    MAX_GRAPH_POINTS \<le> length (s_graph_offsets (initial_watch MAX_GRAPH_POINTS :: watch300)) \<and>
    MAX_GRAPH_POINTS \<le> length (s_graph_bg_values (initial_watch MAX_GRAPH_POINTS :: watch300))"
    by (simp add: example_message_def dict_find_def keys initial_watch_def)
  have compact: "dict_find example_message KEY_BG_TIMESTAMP = Some (uint_tuple 4 1000) \<and>
    dict_find example_message compact_KEY_GRAPH_DATA =
      Some (data_tuple [0xE8, 3, 0, 0, 2, 0, 5, 50, 60]) \<and>
    compact_MAX_GRAPH_POINTS \<le>
      length (s_graph_offsets (initial_watch compact_MAX_GRAPH_POINTS :: watch60)) \<and>
    compact_MAX_GRAPH_POINTS \<le>
      length (s_graph_bg_values (initial_watch compact_MAX_GRAPH_POINTS :: watch60))"
    by (simp add: example_message_def dict_find_def keys initial_watch_def)
  note a = accesses_in_bounds [THEN conjunct1, THEN mp, OF main, of 1100]
  note b = accesses_in_bounds [THEN conjunct2, THEN mp, OF compact, of 1100]
  have len: "t_length (data_tuple [0xE8, 3, 0, 0, 2, 0, 0, 0, 5, 0, 50, 60]) = 12"
    "t_length (data_tuple [0xE8, 3, 0, 0, 2, 0, 5, 50, 60]) = 9"
    by (simp_all add: data_tuple_def)
  have dat: "data (t_value (data_tuple xs)) = xs" for xs
    by (simp add: data_tuple_def)
  show ?thesis
    using main compact a [unfolded len] b [unfolded len] by (simp add: dat)
qed

end
